theory Spec2Isabelle
  imports Complex_Main "HOL-Library.Char_ord" "HOL-Library.List_Lexorder"
begin

section \<open>Python strings\<close>

text \<open>
  A Python \<open>str\<close> is modelled as a \<open>string\<close>, one \<open>char\<close> per code point, for
  code points below 256. On these, \<open>str.lower\<close> moves \<open>A..Z\<close> and the Latin-1 capitals
  (192..222 except the multiplication sign 215) up by 32 and leaves every other
  character alone.
\<close>

definition lower_char :: "char \<Rightarrow> char" where
  "lower_char c =
     (let n = (of_char c :: nat)
      in if (65 \<le> n \<and> n \<le> 90) \<or> (192 \<le> n \<and> n \<le> 222 \<and> n \<noteq> 215)
         then char_of (n + 32) else c)"

definition lower :: "string \<Rightarrow> string" where
  "lower s = map lower_char s"

text \<open>\<open>starts_with w t\<close>: \<open>t.startswith(w)\<close>; \<open>is_substring w t\<close>: \<open>w in t\<close>.\<close>

fun starts_with :: "string \<Rightarrow> string \<Rightarrow> bool" where
  "starts_with [] t = True"
| "starts_with (a # w) [] = False"
| "starts_with (a # w) (b # t) = (a = b \<and> starts_with w t)"

fun is_substring :: "string \<Rightarrow> string \<Rightarrow> bool" where
  "is_substring w [] = (w = [])"
| "is_substring w (c # t) = (starts_with w (c # t) \<or> is_substring w t)"

text \<open>\<open>any_in ws t\<close>: \<open>any(word in t for word in ws)\<close>.\<close>

definition any_in :: "string list \<Rightarrow> string \<Rightarrow> bool" where
  "any_in ws t = list_ex (\<lambda>word. is_substring word t) ws"

text \<open>\<open>count_char c t\<close>: \<open>t.count(c)\<close> for a one-character \<open>c\<close>.\<close>

definition count_char :: "char \<Rightarrow> string \<Rightarrow> nat" where
  "count_char c t = length (filter (\<lambda>x. x = c) t)"

text \<open>
  Whitespace as \<open>str.isspace\<close>, \<open>str.strip\<close>, \<open>str.split\<close> and the regular expression
  whitespace class see it, for code points below 256.
\<close>

definition is_space :: "char \<Rightarrow> bool" where
  "is_space c =
     (let n = (of_char c :: nat)
      in (9 \<le> n \<and> n \<le> 13) \<or> (28 \<le> n \<and> n \<le> 32) \<or> n = 133 \<or> n = 160)"

text \<open>\<open>strip s\<close>: \<open>s.strip()\<close>.\<close>

definition strip :: "string \<Rightarrow> string" where
  "strip s = rev (dropWhile is_space (rev (dropWhile is_space s)))"

text \<open>
  \<open>split_on sep s\<close>: \<open>s.split(sep)\<close> for a one-character separator; the pieces between
  the separators, empty ones included, so there is always at least one piece.
\<close>

fun split_on :: "char \<Rightarrow> string \<Rightarrow> string list" where
  "split_on sep [] = [[]]"
| "split_on sep (c # s) =
     (if c = sep then [] # split_on sep s
      else (case split_on sep s of
              [] \<Rightarrow> [[c]]
            | piece # pieces \<Rightarrow> (c # piece) # pieces))"

text \<open>
  \<open>split_whitespace s\<close>: \<open>s.split()\<close>; the maximal runs of non-whitespace characters.
  \<open>split_ws cur s\<close> carries the run read so far, reversed.
\<close>

fun split_ws :: "string \<Rightarrow> string \<Rightarrow> string list" where
  "split_ws cur [] = (if cur = [] then [] else [rev cur])"
| "split_ws cur (c # s) =
     (if is_space c then (if cur = [] then split_ws [] s else rev cur # split_ws [] s)
      else split_ws (c # cur) s)"

definition split_whitespace :: "string \<Rightarrow> string list" where
  "split_whitespace s = split_ws [] s"

text \<open>The digit class of regular expressions (on code points below 256: the ASCII digits).\<close>

definition is_digit :: "char \<Rightarrow> bool" where
  "is_digit c = (let n = (of_char c :: nat) in 48 \<le> n \<and> n \<le> 57)"

definition digit_value :: "char \<Rightarrow> nat" where
  "digit_value c = (of_char c :: nat) - 48"

text \<open>The value of a run of digits read as a decimal number.\<close>

definition decimal_value :: "string \<Rightarrow> nat" where
  "decimal_value ds = foldl (\<lambda>acc c. 10 * acc + digit_value c) 0 ds"

text \<open>\<open>str(n)\<close> for an integer, and a number padded with zeros to a width.\<close>

fun str_nat :: "nat \<Rightarrow> string" where
  "str_nat n =
     (if n < 10 then [char_of (48 + n)]
      else str_nat (n div 10) @ [char_of (48 + n mod 10)])"

definition str_int :: "int \<Rightarrow> string" where
  "str_int i = (if i < 0 then CHR ''-'' # str_nat (nat (- i)) else str_nat (nat i))"

definition zero_pad :: "nat \<Rightarrow> nat \<Rightarrow> string" where
  "zero_pad width n = replicate (width - length (str_nat n)) CHR ''0'' @ str_nat n"

section \<open>Exceptions\<close>

text \<open>
  A raised exception is a value: its class, as far as a handler of the program
  distinguishes it, and its message. A computation that may raise returns
  \<open>py_exception + 'a\<close>, with \<open>Inl\<close> for the exception.
\<close>

datatype exception_class =
  ConnectionError | Timeout | JSONDecodeError | ValueError | OtherException

datatype py_exception = Raised exception_class string

definition exception_str :: "py_exception \<Rightarrow> string" where
  "exception_str e = (case e of Raised cls msg \<Rightarrow> msg)"

text \<open>\<open>try: body except Exception: handler\<close>.\<close>

definition try_except ::
  "py_exception + 'a \<Rightarrow> (py_exception \<Rightarrow> py_exception + 'a) \<Rightarrow> py_exception + 'a" where
  "try_except body handler = (case body of Inl e \<Rightarrow> handler e | Inr v \<Rightarrow> Inr v)"

section \<open>Dates\<close>

text \<open>
  A \<open>datetime\<close> is the number of microseconds since 0001-01-01 00:00:00, and
  \<open>timedelta(days=d)\<close> is \<open>d\<close> times the microseconds of a day. The current time is
  taken to lie far enough below the year 9999 for the additions not to overflow.
\<close>

type_synonym datetime = int

definition timedelta_days :: "int \<Rightarrow> int" where
  "timedelta_days d = d * 86400000000"

text \<open>
  The year, month and day of a day number (day 1 is 0001-01-01), by the algorithm of
  the standard library's \<open>date.fromordinal\<close>.
\<close>

definition days_before_month :: "nat \<Rightarrow> int" where
  "days_before_month m = [0, 0, 31, 59, 90, 120, 151, 181, 212, 243, 273, 304, 334] ! m"

definition days_in_month :: "nat \<Rightarrow> int" where
  "days_in_month m = [0, 31, 28, 31, 30, 31, 30, 31, 31, 30, 31, 30, 31] ! m"

definition ord2ymd :: "int \<Rightarrow> int \<times> nat \<times> int" where
  "ord2ymd ordinal =
     (let n = ordinal - 1;
          n400 = n div 146097; n = n mod 146097;
          year = n400 * 400 + 1;
          n100 = n div 36524; n = n mod 36524;
          n4 = n div 1461; n = n mod 1461;
          n1 = n div 365; n = n mod 365;
          year = year + n100 * 100 + n4 * 4 + n1
      in if n1 = 4 \<or> n100 = 4 then (year - 1, 12, 31)
         else
           let leapyear = (n1 = 3 \<and> (n4 \<noteq> 24 \<or> n100 = 3));
               month = nat ((n + 50) div 32);
               preceding = days_before_month month + (if month > 2 \<and> leapyear then 1 else 0)
           in if preceding > n
              then
                let month = month - 1;
                    preceding =
                      preceding - (days_in_month month + (if month = 2 \<and> leapyear then 1 else 0))
                in (year, month, n - preceding + 1)
              else (year, month, n - preceding + 1))"

text \<open>\<open>strftime_ymd dt\<close>: \<open>dt.strftime("%Y-%m-%d")\<close>, the year written with four digits.\<close>

definition strftime_ymd :: "datetime \<Rightarrow> string" where
  "strftime_ymd dt =
     (case ord2ymd (dt div 86400000000 + 1) of
        (year, month, day) \<Rightarrow>
          zero_pad 4 (nat year) @ ''-'' @ zero_pad 2 month @ ''-'' @ zero_pad 2 (nat day))"

section \<open>AIClient\<close>

text \<open>
  The network is a \<open>world\<close>: the clock read by \<open>datetime.now()\<close>, the outcome of the
  n-th request to each provider, and the log of the requests made so far. A request to
  LM Studio either raises (connection refused, timeout) or answers with a status code
  and a body; of the body the client reads
  \<open>response.json().get('choices', [{}])[0].get('text', '')\<close>, which is a text or raises.
  A request to OpenAI yields \<open>response.choices[0].message.content\<close> or raises.
\<close>

datatype provider = LM_Studio | OpenAI

datatype lm_body = Completion_Text string | Body_Raises py_exception

datatype http_outcome = Post_Raises py_exception | Response int lm_body

record world =
  clock :: datetime
  lm_studio_replies :: "nat \<Rightarrow> http_outcome"
  openai_replies :: "nat \<Rightarrow> py_exception + string"
  calls :: "provider list"

text \<open>
  The client's configuration, read from the environment by \<open>__init__\<close>;
  \<open>os.getenv\<close> gives \<open>None\<close> for a variable that is not set.
\<close>

record ai_client =
  openai_key :: "string option"
  anthropic_key :: "string option"
  gemini_key :: "string option"
  lm_studio_url :: string

text \<open>The truth value of an optional string: \<open>None\<close> and the empty string are false.\<close>

definition truthy :: "string option \<Rightarrow> bool" where
  "truthy k = (case k of None \<Rightarrow> False | Some s \<Rightarrow> s \<noteq> [])"

subsection \<open>\<open>_fallback_analysis\<close>\<close>

definition fallback_analysis :: "datetime \<Rightarrow> string \<Rightarrow> string" where
  "fallback_analysis now prompt =
     (if is_substring ''priority'' (lower prompt) then ''0.7''
      else if is_substring ''deadline'' (lower prompt) then
        (let future_date = now + timedelta_days 3 in strftime_ymd future_date)
      else if is_substring ''category'' (lower prompt) then ''General''
      else if is_substring ''tags'' (lower prompt) then ''task, general''
      else ''Analysis unavailable - using defaults'')"

subsection \<open>\<open>call_lm_studio\<close>\<close>

definition call_lm_studio ::
  "ai_client \<Rightarrow> string \<Rightarrow> int \<Rightarrow> world \<Rightarrow> (py_exception + string) \<times> world" where
  "call_lm_studio self prompt max_tokens w =
     (let outcome = lm_studio_replies w (count_list (calls w) LM_Studio);
          w' = w\<lparr>calls := calls w @ [LM_Studio]\<rparr>
      in (try_except
            (case outcome of
               Post_Raises e \<Rightarrow> Inl e
             | Response status_code body \<Rightarrow>
                 if status_code = 200
                 then (case body of
                         Completion_Text t \<Rightarrow> Inr (strip t)
                       | Body_Raises e \<Rightarrow> Inl e)
                 else Inr (fallback_analysis (clock w) prompt))
            (\<lambda>e. Inr (fallback_analysis (clock w) prompt)),
          w'))"

subsection \<open>\<open>call_openai\<close>\<close>

definition call_openai ::
  "ai_client \<Rightarrow> string \<Rightarrow> int \<Rightarrow> world \<Rightarrow> (py_exception + string) \<times> world" where
  "call_openai self prompt max_tokens w =
     (if \<not> truthy (openai_key self) then call_lm_studio self prompt max_tokens w
      else
        let reply = openai_replies w (count_list (calls w) OpenAI);
            w' = w\<lparr>calls := calls w @ [OpenAI]\<rparr>
        in (case reply of
              Inr content \<Rightarrow> (Inr (strip content), w')
            | Inl e \<Rightarrow> call_lm_studio self prompt max_tokens w'))"

subsection \<open>\<open>analyze_with_ai\<close>\<close>

definition analyze_with_ai ::
  "ai_client \<Rightarrow> string \<Rightarrow> int \<Rightarrow> world \<Rightarrow> (py_exception + string) \<times> world" where
  "analyze_with_ai self prompt max_tokens w =
     (case call_lm_studio self prompt max_tokens w of
        (Inl e, w1) \<Rightarrow> (Inl e, w1)
      | (Inr result, w1) \<Rightarrow>
          if is_substring ''Analysis unavailable'' result \<and> truthy (openai_key self)
          then call_openai self prompt max_tokens w1
          else (Inr result, w1))"

text \<open>
  The analyzers hold the client as \<open>self.ai_client\<close> and only call its
  \<open>analyze_with_ai\<close>: to them the gateway is a function from the prompt and the token
  limit to a text or an exception. \<open>gateway self w\<close> is the client in the world \<open>w\<close>.
\<close>

type_synonym ai_call = "string \<Rightarrow> int \<Rightarrow> py_exception + string"

definition gateway :: "ai_client \<Rightarrow> world \<Rightarrow> ai_call" where
  "gateway self w = (\<lambda>prompt max_tokens. fst (analyze_with_ai self prompt max_tokens w))"

section \<open>ContextProcessor\<close>

text \<open>
  Library functions the processor calls and the program does not define are parameters:
  \<^item> \<open>to_list\<close> is \<open>list(s)\<close> for a set \<open>s\<close>: Python fixes no iteration order for a set,
    only that every element comes once (\<open>lists_each_set\<close>);
  \<^item> \<open>findall\<close> is \<open>re.findall\<close> for the seven date and time patterns;
  \<^item> \<open>json_loads\<close> is \<open>json.loads\<close>, which returns a value or raises.
\<close>

definition lists_each_set :: "(string set \<Rightarrow> string list) \<Rightarrow> bool" where
  "lists_each_set to_list = (\<forall>s. finite s \<longrightarrow> set (to_list s) = s \<and> distinct (to_list s))"

definition priority_keywords :: "string list" where
  "priority_keywords =
     [''urgent'', ''asap'', ''immediately'', ''deadline'', ''due'', ''important'',
      ''critical'', ''priority'', ''rush'', ''emergency'', ''today'', ''tomorrow'']"

subsection \<open>\<open>extract_keywords\<close>\<close>

text \<open>The word-character class of regular expressions on code points below 256.\<close>

definition is_word_char :: "char \<Rightarrow> bool" where
  "is_word_char c =
     (let n = (of_char c :: nat)
      in (48 \<le> n \<and> n \<le> 57) \<or> (65 \<le> n \<and> n \<le> 90) \<or> n = 95 \<or> (97 \<le> n \<and> n \<le> 122)
         \<or> n = 170 \<or> n = 178 \<or> n = 179 \<or> n = 181 \<or> n = 185 \<or> n = 186
         \<or> (188 \<le> n \<and> n \<le> 190) \<or> (192 \<le> n \<and> n \<le> 214) \<or> (216 \<le> n \<and> n \<le> 246)
         \<or> (248 \<le> n \<and> n \<le> 255))"

definition stop_words :: "string set" where
  "stop_words =
     {''the'', ''a'', ''an'', ''and'', ''or'', ''but'', ''in'', ''on'', ''at'', ''to'', ''for'',
      ''of'', ''with'', ''by'', ''from'', ''as'', ''is'', ''are'', ''was'', ''were'', ''be'',
      ''been'', ''being'', ''have'', ''has'', ''had'', ''do'', ''does'', ''did'', ''will'',
      ''would'', ''could'', ''should'', ''may'', ''might'', ''can'', ''this'', ''that'',
      ''these'', ''those'', ''i'', ''you'', ''he'', ''she'', ''it'', ''we'', ''they''}"

definition extract_keywords :: "(string set \<Rightarrow> string list) \<Rightarrow> string \<Rightarrow> string list" where
  "extract_keywords to_list text =
     (let clean_text =
            map (\<lambda>c. if \<not> is_word_char c \<and> \<not> is_space c then CHR '' '' else c) (lower text);
          words = split_whitespace clean_text;
          keywords = filter (\<lambda>word. length word > 2 \<and> word \<notin> stop_words) words
      in take 10 (to_list (set keywords)))"

subsection \<open>\<open>analyze_sentiment\<close>\<close>

definition positive_words :: "string list" where
  "positive_words =
     [''good'', ''great'', ''excellent'', ''amazing'', ''wonderful'', ''fantastic'',
      ''love'', ''like'', ''enjoy'', ''happy'', ''excited'', ''pleased'', ''satisfied'']"

definition negative_words :: "string list" where
  "negative_words =
     [''bad'', ''terrible'', ''awful'', ''hate'', ''dislike'', ''angry'', ''frustrated'',
      ''upset'', ''annoyed'', ''disappointed'', ''worried'', ''stressed'', ''urgent'']"

definition analyze_sentiment :: "string \<Rightarrow> real" where
  "analyze_sentiment text =
     (let text_lower = lower text;
          positive_score = length (filter (\<lambda>word. is_substring word text_lower) positive_words);
          negative_score = length (filter (\<lambda>word. is_substring word text_lower) negative_words);
          total_score = positive_score + negative_score
      in if total_score = 0 then 0.5
         else real positive_score / real total_score)"

subsection \<open>\<open>detect_priority_indicators\<close>\<close>

definition detect_priority_indicators :: "string \<Rightarrow> string list" where
  "detect_priority_indicators text =
     (let text_lower = lower text
      in filter (\<lambda>keyword. is_substring keyword text_lower) priority_keywords)"

subsection \<open>\<open>extract_dates_and_times\<close>\<close>

text \<open>
  The seven patterns, in the order of the source: month/day/year with slashes, with
  dashes, year-month-day, today or tomorrow or yesterday, the days of the week, next week
  or this week or next month, and a clock time with an optional am or pm.
\<close>

datatype date_pattern =
  Slash_Date | Dash_Date | Iso_Date | Relative_Day | Week_Day | Relative_Period | Clock_Time

definition date_patterns :: "date_pattern list" where
  "date_patterns =
     [Slash_Date, Dash_Date, Iso_Date, Relative_Day, Week_Day, Relative_Period, Clock_Time]"

definition extract_dates_and_times ::
  "(date_pattern \<Rightarrow> string \<Rightarrow> string list) \<Rightarrow> string \<Rightarrow> string list" where
  "extract_dates_and_times findall text =
     concat (map (\<lambda>pattern. findall pattern (lower text)) date_patterns)"

subsection \<open>\<open>_calculate_urgency\<close>\<close>

definition calculate_urgency :: "string \<Rightarrow> int" where
  "calculate_urgency text =
     (let urgency_score = 1;
          text_lower = lower text;
          urgency_score =
            (if any_in [''urgent'', ''asap'', ''immediately'', ''emergency''] text_lower
             then urgency_score + 4 else urgency_score);
          urgency_score =
            (if any_in [''important'', ''priority'', ''deadline''] text_lower
             then urgency_score + 2 else urgency_score);
          urgency_score =
            (if any_in [''today'', ''now'', ''tonight''] text_lower
             then urgency_score + 3
             else if any_in [''tomorrow'', ''this week''] text_lower
             then urgency_score + 2 else urgency_score);
          urgency_score = urgency_score + min (int (count_char CHR ''!'' text)) 2
      in min urgency_score 10)"

subsection \<open>\<open>process_context_entry\<close>\<close>

text \<open>
  The value stored under \<open>'ai_analysis'\<close>: the parsed JSON, or the dictionary with the
  single key \<open>'raw_response'\<close>, or the dictionary with the single key \<open>'error'\<close>.
  The key \<open>'keywords'\<close> of the insights is the field \<open>keywords_field\<close>.
\<close>

datatype 'j ai_analysis = Parsed 'j | Raw_Response string | Error string

record 'j insights =
  keywords_field :: "string list"
  sentiment_score :: real
  priority_indicators :: "string list"
  dates_mentioned :: "string list"
  word_count :: nat
  has_deadline_mention :: bool
  urgency_level :: int
  ai_analysis :: "'j ai_analysis"

definition context_prompt :: "string \<Rightarrow> string \<Rightarrow> string" where
  "context_prompt source_type content =
     ''\<newline>            Analyze this '' @ lower source_type
       @ '' message and extract key insights:\<newline>''
     @ ''            \<newline>''
     @ ''            Content: '' @ [CHR 0x22] @ content @ [CHR 0x22] @ ''\<newline>''
     @ ''            \<newline>''
     @ ''            Please identify:\<newline>''
     @ ''            1. Main topic or subject\<newline>''
     @ ''            2. Any mentioned deadlines or time constraints\<newline>''
     @ ''            3. Priority level (1-10)\<newline>''
     @ ''            4. Relevant project or category\<newline>''
     @ ''            5. Action items mentioned\<newline>''
     @ ''            \<newline>''
     @ ''            Respond in JSON format with keys: topic, deadlines, priority, category, actions\<newline>''
     @ ''            ''"

definition process_context_entry ::
  "(string set \<Rightarrow> string list) \<Rightarrow> (date_pattern \<Rightarrow> string \<Rightarrow> string list)
   \<Rightarrow> (string \<Rightarrow> py_exception + 'j) \<Rightarrow> ai_call \<Rightarrow> string \<Rightarrow> string \<Rightarrow> 'j insights" where
  "process_context_entry to_list findall json_loads ai content source_type =
     \<lparr>keywords_field = extract_keywords to_list content,
      sentiment_score = analyze_sentiment content,
      priority_indicators = detect_priority_indicators content,
      dates_mentioned = extract_dates_and_times findall content,
      word_count = length (split_whitespace content),
      has_deadline_mention = any_in [''deadline'', ''due'', ''by''] (lower content),
      urgency_level = calculate_urgency content,
      ai_analysis =
        (case ai (context_prompt source_type content) 500 of
           Inl e \<Rightarrow> Error (exception_str e)
         | Inr ai_response \<Rightarrow>
             (case json_loads ai_response of
                Inr ai_insights \<Rightarrow> Parsed ai_insights
              | Inl (Raised cls msg) \<Rightarrow>
                  if cls = JSONDecodeError then Raw_Response ai_response
                  else Error msg))\<rparr>"

subsection \<open>\<open>find_relevant_contexts\<close>\<close>

text \<open>
  A context entry is a dictionary; the analyzers read the keys \<open>'content'\<close>,
  \<open>'keywords'\<close> and \<open>'urgency_level'\<close> with \<open>get\<close>, so each may be absent.
\<close>

text \<open>
  A match is the dictionary with the keys \<open>'context'\<close> (the field \<open>context_field\<close>),
  \<open>'relevance_score'\<close> and \<open>'matching_keywords'\<close>.
\<close>

record context_dict =
  ctx_content :: "string option"
  ctx_keywords :: "string list option"
  ctx_urgency_level :: "int option"

record relevance_match =
  context_field :: context_dict
  relevance_score :: real
  matching_keywords :: "string list"

definition find_relevant_contexts ::
  "(string set \<Rightarrow> string list) \<Rightarrow> string \<Rightarrow> context_dict list \<Rightarrow> relevance_match list" where
  "find_relevant_contexts to_list task_content context_entries =
     (let task_keywords = set (extract_keywords to_list task_content);
          relevant_contexts =
            concat (map (\<lambda>context.
              let context_keywords =
                    set (case ctx_keywords context of None \<Rightarrow> [] | Some ks \<Rightarrow> ks);
                  overlap = task_keywords \<inter> context_keywords;
                  relevance_score = real (card overlap) / real (max (card task_keywords) 1)
              in if relevance_score > 0.1
                 then [\<lparr>context_field = context, relevance_score = relevance_score,
                        matching_keywords = to_list overlap\<rparr>]
                 else []) context_entries)
      in take 5 (sort_key (\<lambda>x. - relevance_score x) relevant_contexts))"

section \<open>TaskAnalyzer\<close>

subsection \<open>The deterministic fallbacks\<close>

definition calculate_fallback_priority :: "string \<Rightarrow> string \<Rightarrow> real" where
  "calculate_fallback_priority title description =
     (let text = lower (title @ '' '' @ description)
      in if any_in [''urgent'', ''critical'', ''asap'', ''emergency''] text then 0.9
         else if any_in [''important'', ''priority'', ''deadline''] text then 0.7
         else if any_in [''meeting'', ''call'', ''presentation''] text then 0.6
         else 0.5)"

definition calculate_fallback_deadline :: "datetime \<Rightarrow> string \<Rightarrow> datetime" where
  "calculate_fallback_deadline now description =
     (let text = lower description
      in if any_in [''urgent'', ''asap'', ''today''] text then now + timedelta_days 1
         else if any_in [''tomorrow'', ''soon''] text then now + timedelta_days 2
         else if any_in [''week'', ''weekly''] text then now + timedelta_days 7
         else now + timedelta_days 3)"

definition suggest_fallback_tags :: "string \<Rightarrow> string \<Rightarrow> string list" where
  "suggest_fallback_tags title description =
     (let text = lower (title @ '' '' @ description);
          tags = [];
          tags = (if any_in [''urgent'', ''asap'', ''critical''] text
                  then tags @ [''urgent''] else tags);
          tags = (if any_in [''meeting'', ''call''] text then tags @ [''meeting''] else tags);
          tags = (if any_in [''work'', ''office'', ''project''] text
                  then tags @ [''work''] else tags);
          tags = (if any_in [''personal'', ''home'', ''family''] text
                  then tags @ [''personal''] else tags);
          tags = (if any_in [''follow-up'', ''followup'', ''follow''] text
                  then tags @ [''follow-up''] else tags);
          tags = (if tags = [] then tags @ [''task''] else tags)
      in take 3 tags)"

subsection \<open>Reading numbers out of the gateway's answer\<close>

text \<open>
  \<open>findall_digits s\<close>: \<open>re.findall\<close> for the pattern "one or more digits", the maximal
  runs of digits from left to right. \<open>digit_runs cur s\<close> carries the run read so far,
  reversed.
\<close>

fun digit_runs :: "string \<Rightarrow> string \<Rightarrow> string list" where
  "digit_runs cur [] = (if cur = [] then [] else [rev cur])"
| "digit_runs cur (c # s) =
     (if is_digit c then digit_runs (c # cur) s
      else if cur = [] then digit_runs [] s
      else rev cur # digit_runs [] s)"

definition findall_digits :: "string \<Rightarrow> string list" where
  "findall_digits s = digit_runs [] s"

text \<open>
  \<open>int(s)\<close> on a run of digits. The interpreter refuses a string of more than
  \<open>max_str_digits\<close> digits with a \<open>ValueError\<close> (4300 by default; 0 switches the
  limit off).
\<close>

definition py_int :: "nat \<Rightarrow> string \<Rightarrow> py_exception + int" where
  "py_int max_str_digits s =
     (if max_str_digits > 0 \<and> length s > max_str_digits
      then Inl (Raised ValueError ''Exceeds the limit for integer string conversion'')
      else Inr (int (decimal_value s)))"

text \<open>
  The match of the pattern "0, a dot and one or more digits, or else 1.0" at the head of
  a string, and \<open>findall_decimal s\<close>: the first element of the list that \<open>re.findall\<close>
  returns for this pattern, \<open>None\<close> when the list is empty.
\<close>

definition match_decimal :: "string \<Rightarrow> string option" where
  "match_decimal s =
     (if starts_with ''0.'' s \<and> takeWhile is_digit (drop 2 s) \<noteq> []
      then Some (''0.'' @ takeWhile is_digit (drop 2 s))
      else if starts_with ''1.0'' s then Some ''1.0''
      else None)"

fun findall_decimal :: "string \<Rightarrow> string option" where
  "findall_decimal [] = None"
| "findall_decimal (c # s) =
     (case match_decimal (c # s) of
        Some number \<Rightarrow> Some number
      | None \<Rightarrow> findall_decimal s)"

text \<open>
  \<open>float(s)\<close> on such a match: a float is modelled by the real number that the decimal
  notation denotes.
\<close>

definition py_float :: "string \<Rightarrow> real" where
  "py_float s =
     (let whole = takeWhile (\<lambda>c. c \<noteq> CHR ''.'') s;
          fraction = drop 1 (dropWhile (\<lambda>c. c \<noteq> CHR ''.'') s)
      in real (decimal_value whole) + real (decimal_value fraction) / 10 ^ length fraction)"

subsection \<open>\<open>analyze_task_priority\<close>\<close>

definition priority_context_info :: "context_dict list option \<Rightarrow> string" where
  "priority_context_info context_data =
     (case context_data of
        None \<Rightarrow> []
      | Some entries \<Rightarrow>
          if entries = [] then []
          else
            let recent_contexts =
                  take 3 (filter (\<lambda>ctx. (case ctx_urgency_level ctx of None \<Rightarrow> 0 | Some u \<Rightarrow> u) > 5)
                            entries)
            in if recent_contexts = [] then []
               else ''\<newline>Recent important context:\<newline>''
                    @ concat (map (\<lambda>ctx. ''- ''
                        @ take 100 (case ctx_content ctx of None \<Rightarrow> [] | Some c \<Rightarrow> c)
                        @ ''...\<newline>'') recent_contexts))"

definition priority_prompt :: "string \<Rightarrow> string \<Rightarrow> string \<Rightarrow> string" where
  "priority_prompt task_title task_description context_info =
     ''\<newline>        Analyze the priority of this task on a scale of 0.0 to 1.0 (where 1.0 is highest priority):\<newline>''
     @ ''        \<newline>''
     @ ''        Task: '' @ task_title @ ''\<newline>''
     @ ''        Description: '' @ task_description @ ''\<newline>''
     @ ''        '' @ context_info @ ''\<newline>''
     @ ''        \<newline>''
     @ ''        Consider:\<newline>''
     @ ''        1. Urgency and deadlines\<newline>''
     @ ''        2. Impact and importance\<newline>''
     @ ''        3. Dependencies and context\<newline>''
     @ ''        4. Keywords indicating priority\<newline>''
     @ ''        \<newline>''
     @ ''        Respond with only a decimal number between 0.0 and 1.0\<newline>''
     @ ''        ''"

definition analyze_task_priority ::
  "ai_call \<Rightarrow> string \<Rightarrow> string \<Rightarrow> context_dict list option \<Rightarrow> real" where
  "analyze_task_priority ai task_title task_description context_data =
     (let context_info = priority_context_info context_data;
          prompt = priority_prompt task_title task_description context_info
      in case ai prompt 100 of
           Inr result \<Rightarrow>
             (case findall_decimal result of
                Some number \<Rightarrow> py_float number
              | None \<Rightarrow> 0.5)
         | Inl e \<Rightarrow> calculate_fallback_priority task_title task_description)"

subsection \<open>\<open>suggest_deadline\<close>\<close>

definition deadline_prompt :: "string \<Rightarrow> string \<Rightarrow> int \<Rightarrow> string" where
  "deadline_prompt task_title task_description current_workload =
     ''\<newline>        Suggest a realistic deadline for this task. Consider the complexity and current workload.\<newline>''
     @ ''        \<newline>''
     @ ''        Task: '' @ task_title @ ''\<newline>''
     @ ''        Description: '' @ task_description @ ''\<newline>''
     @ ''        Current workload (1-10): '' @ str_int current_workload @ ''\<newline>''
     @ ''        \<newline>''
     @ ''        Based on the task complexity, suggest how many days from now this should be completed.\<newline>''
     @ ''        Respond with only a number (days from now).\<newline>''
     @ ''        ''"

text \<open>
  The body of the \<open>try\<close> block, which raises when the gateway does or when \<open>int\<close> does,
  and the function with its bare \<open>except\<close>.
\<close>

definition suggest_deadline_try ::
  "ai_call \<Rightarrow> datetime \<Rightarrow> nat \<Rightarrow> string \<Rightarrow> py_exception + datetime" where
  "suggest_deadline_try ai now max_str_digits prompt =
     (case ai prompt 100 of
        Inl e \<Rightarrow> Inl e
      | Inr result \<Rightarrow>
          (case findall_digits result of
             first_run # other_runs \<Rightarrow>
               (case py_int max_str_digits first_run of
                  Inl e \<Rightarrow> Inl e
                | Inr n \<Rightarrow> (let days_ahead = min n 30 in Inr (now + timedelta_days days_ahead)))
           | [] \<Rightarrow> Inr (now + timedelta_days 3)))"

definition suggest_deadline ::
  "ai_call \<Rightarrow> datetime \<Rightarrow> nat \<Rightarrow> string \<Rightarrow> string \<Rightarrow> int \<Rightarrow> datetime" where
  "suggest_deadline ai now max_str_digits task_title task_description current_workload =
     (let prompt = deadline_prompt task_title task_description current_workload
      in case suggest_deadline_try ai now max_str_digits prompt of
           Inr deadline \<Rightarrow> deadline
         | Inl e \<Rightarrow> calculate_fallback_deadline now task_description)"

subsection \<open>\<open>suggest_tags\<close>\<close>

definition tags_prompt :: "string \<Rightarrow> string \<Rightarrow> string" where
  "tags_prompt task_title task_description =
     ''\<newline>        Suggest 3-5 relevant tags for this task:\<newline>''
     @ ''        \<newline>''
     @ ''        Task: '' @ task_title @ ''\<newline>''
     @ ''        Description: '' @ task_description @ ''\<newline>''
     @ ''        \<newline>''
     @ ''        Respond with comma-separated tags (no spaces after commas).\<newline>''
     @ ''        ''"

definition suggest_tags :: "ai_call \<Rightarrow> string \<Rightarrow> string \<Rightarrow> string list" where
  "suggest_tags ai task_title task_description =
     (let prompt = tags_prompt task_title task_description
      in case ai prompt 100 of
           Inr result \<Rightarrow>
             (let tags = map (\<lambda>tag. lower (strip tag)) (split_on CHR '','' result)
              in take 5 tags)
         | Inl e \<Rightarrow> suggest_fallback_tags task_title task_description)"

section \<open>Notions of the specification\<close>

text \<open>
  The urgency score as the specification words it: base 1, plus 4, plus 2, plus either 3
  or 2, plus at most 2 for exclamation marks, clamped to 10.
\<close>

definition urgency_spec :: "string \<Rightarrow> int" where
  "urgency_spec text =
     min (1
          + (if any_in [''urgent'', ''asap'', ''immediately'', ''emergency''] (lower text)
             then 4 else 0)
          + (if any_in [''important'', ''priority'', ''deadline''] (lower text)
             then 2 else 0)
          + (if any_in [''today'', ''now'', ''tonight''] (lower text) then 3
             else if any_in [''tomorrow'', ''this week''] (lower text) then 2 else 0)
          + min (int (count_char CHR ''!'' text)) 2)
         10"

text \<open>
  The specification's sentiment counts: the number of words of a list that occur in a
  text as substrings.
\<close>

definition count_present :: "string list \<Rightarrow> string \<Rightarrow> nat" where
  "count_present ws t = length (filter (\<lambda>word. is_substring word t) ws)"

text \<open>
  The specification's relevance of a context entry for a set of task keywords: the size
  of the intersection with the entry's keyword set over the number of task keywords,
  the denominator floored at 1.
\<close>

definition entry_keywords :: "context_dict \<Rightarrow> string set" where
  "entry_keywords entry = (case ctx_keywords entry of None \<Rightarrow> {} | Some ks \<Rightarrow> set ks)"

definition relevance :: "string set \<Rightarrow> context_dict \<Rightarrow> real" where
  "relevance task_keywords entry =
     real (card (task_keywords \<inter> entry_keywords entry)) / real (max (card task_keywords) 1)"

text \<open>The match that \<open>find_relevant_contexts\<close> builds for an entry it keeps.\<close>

definition candidate ::
  "(string set \<Rightarrow> string list) \<Rightarrow> string set \<Rightarrow> context_dict \<Rightarrow> relevance_match" where
  "candidate to_list task_keywords c =
     \<lparr>context_field = c, relevance_score = relevance task_keywords c,
      matching_keywords = to_list (task_keywords \<inter> entry_keywords c)\<rparr>"

text \<open>
  A request to LM Studio has failed when it raised (connection error, timeout), when the
  status is not 200, or when the body of a 200 answer could not be read.
\<close>

fun request_failed :: "http_outcome \<Rightarrow> bool" where
  "request_failed (Post_Raises e) = True"
| "request_failed (Response status_code (Body_Raises e)) = True"
| "request_failed (Response status_code (Completion_Text t)) = (status_code \<noteq> 200)"

section \<open>Example environments\<close>

text \<open>
  A world at noon of 2026-11-03 in which no provider can be reached, one in which
  LM Studio answers every request with a given text, and clients with and without an
  OpenAI key.
\<close>

definition refused :: py_exception where
  "refused = Raised ConnectionError ''Connection refused''"

definition offline_world :: world where
  "offline_world =
     \<lparr>clock = 63929304000000000,
      lm_studio_replies = (\<lambda>n. Post_Raises refused),
      openai_replies = (\<lambda>n. Inl refused),
      calls = []\<rparr>"

definition lm_studio_says :: "string \<Rightarrow> world" where
  "lm_studio_says t =
     \<lparr>clock = 63929304000000000,
      lm_studio_replies = (\<lambda>n. Response 200 (Completion_Text t)),
      openai_replies = (\<lambda>n. Inr ''hello from the secondary''),
      calls = []\<rparr>"

text \<open>
  Stand-ins for the library in examples: sets listed in sorted order, a text without
  dates or times, and a JSON parser that knows the empty object and refuses the rest.
\<close>

definition sorted_to_list :: "string set \<Rightarrow> string list" where
  "sorted_to_list s = sorted_list_of_set s"

definition no_dates :: "date_pattern \<Rightarrow> string \<Rightarrow> string list" where
  "no_dates pattern text = []"

definition json_loads_example :: "string \<Rightarrow> py_exception + unit" where
  "json_loads_example s =
     (if strip s = ''{}'' then Inr ()
      else Inl (Raised JSONDecodeError ''Expecting value''))"

text \<open>Two stored context entries: one about a lunch meeting, one about an invoice.\<close>

definition lunch_entry :: context_dict where
  "lunch_entry =
     \<lparr>ctx_content = Some ''Lunch meeting at noon'',
      ctx_keywords = Some [''meeting'', ''lunch''],
      ctx_urgency_level = Some 3\<rparr>"

definition invoice_entry :: context_dict where
  "invoice_entry =
     \<lparr>ctx_content = Some ''The invoice is paid'',
      ctx_keywords = Some [''invoice'', ''paid''],
      ctx_urgency_level = Some 1\<rparr>"

definition client_without_keys :: ai_client where
  "client_without_keys =
     \<lparr>openai_key = None, anthropic_key = None, gemini_key = None,
      lm_studio_url = ''http://localhost:1234/v1''\<rparr>"

definition client_with_openai_key :: ai_client where
  "client_with_openai_key =
     \<lparr>openai_key = Some ''sk-test'', anthropic_key = None, gemini_key = None,
      lm_studio_url = ''http://localhost:1234/v1''\<rparr>"

section \<open>Properties of \<open>_calculate_urgency\<close>\<close>

lemma calculate_urgency_lower_bound: "1 \<le> calculate_urgency text"
  by (simp add: calculate_urgency_def Let_def)

lemma calculate_urgency_upper_bound: "calculate_urgency text \<le> 10"
  by (simp add: calculate_urgency_def Let_def)

lemma calculate_urgency_refines_spec: "calculate_urgency text = urgency_spec text"
  by (simp add: calculate_urgency_def urgency_spec_def Let_def)

lemma calculate_urgency_example: "calculate_urgency ''URGENT!!! today'' = 10"
  by code_simp

text \<open>
  C5: for every text, \<open>_calculate_urgency\<close> returns an integer between 1 and 10, equal to
  the specification's sum (base 1, +4, +2, +3 or else +2, + min(count of '!', 2), clamped
  to 10); on "URGENT!!! today" it returns 1 + 4 + 3 + min(3, 2) = 10.
\<close>

theorem calculate_urgency_correct:
  "1 \<le> calculate_urgency text \<and> calculate_urgency text \<le> 10
   \<and> calculate_urgency text = urgency_spec text
   \<and> calculate_urgency ''URGENT!!! today'' = 1 + 4 + 3 + min 3 2
   \<and> calculate_urgency ''URGENT!!! today'' = 10"
  using calculate_urgency_lower_bound calculate_urgency_upper_bound
    calculate_urgency_refines_spec calculate_urgency_example
  by simp

section \<open>Substrings and lower case\<close>

lemma starts_with_iff: "starts_with w t \<longleftrightarrow> (\<exists>s. t = w @ s)"
  by (induction w t rule: starts_with.induct) auto

lemma is_substring_iff: "is_substring w t \<longleftrightarrow> (\<exists>p s. t = p @ w @ s)"
proof (induction t)
  case Nil
  then show ?case by auto
next
  case (Cons c t)
  show ?case
  proof
    assume "is_substring w (c # t)"
    then consider "starts_with w (c # t)" | "is_substring w t" by auto
    then show "\<exists>p s. c # t = p @ w @ s"
    proof cases
      case 1
      then obtain s where "c # t = w @ s" using starts_with_iff by blast
      then have "c # t = [] @ w @ s" by simp
      then show ?thesis by blast
    next
      case 2
      then obtain p s where "t = p @ w @ s" using Cons.IH by blast
      then have "c # t = (c # p) @ w @ s" by simp
      then show ?thesis by blast
    qed
  next
    assume "\<exists>p s. c # t = p @ w @ s"
    then obtain p s where ps: "c # t = p @ w @ s" by blast
    show "is_substring w (c # t)"
    proof (cases p)
      case Nil
      then have "starts_with w (c # t)" using ps starts_with_iff by auto
      then show ?thesis by simp
    next
      case (Cons a p')
      then have "t = p' @ w @ s" using ps by simp
      then have "is_substring w t" using Cons.IH by blast
      then show ?thesis by simp
    qed
  qed
qed

lemma is_substring_append_left: "is_substring w a \<Longrightarrow> is_substring w (a @ b)"
  unfolding is_substring_iff by (metis append.assoc)

lemma is_substring_append_right: "is_substring w b \<Longrightarrow> is_substring w (a @ b)"
  unfolding is_substring_iff by (metis append.assoc)

lemma lower_append: "lower (a @ b) = lower a @ lower b"
  by (simp add: lower_def)

lemma is_substring_lower: "is_substring w t \<Longrightarrow> is_substring (lower w) (lower t)"
  unfolding is_substring_iff by (metis lower_append)

lemma lower_priority: "lower ''priority'' = ''priority''" by code_simp

lemma priority_prompt_mentions_priority:
  "is_substring ''priority'' (lower (priority_prompt task_title task_description context_info))"
proof -
  have "is_substring ''priority'' (lower ''\<newline>        Analyze the priority of this task on a scale of 0.0 to 1.0 (where 1.0 is highest priority):\<newline>'')"
    by code_simp
  then show ?thesis
    unfolding priority_prompt_def lower_append by (rule is_substring_append_left)
qed

section \<open>Properties of the AI gateway\<close>

lemma call_lm_studio_world:
  "snd (call_lm_studio self prompt mt w) = w\<lparr>calls := calls w @ [LM_Studio]\<rparr>"
  by (simp add: call_lm_studio_def Let_def)

lemma call_lm_studio_returns: "\<exists>s. fst (call_lm_studio self prompt mt w) = Inr s"
  by (simp add: call_lm_studio_def Let_def try_except_def
      split: http_outcome.split lm_body.split)

lemma call_lm_studio_failed:
  "request_failed (lm_studio_replies w (count_list (calls w) LM_Studio)) \<Longrightarrow>
   fst (call_lm_studio self prompt mt w) = Inr (fallback_analysis (clock w) prompt)"
  by (cases "lm_studio_replies w (count_list (calls w) LM_Studio)" rule: request_failed.cases)
     (simp_all add: call_lm_studio_def Let_def try_except_def)

lemma call_openai_returns: "\<exists>s. fst (call_openai self prompt mt w) = Inr s"
  using call_lm_studio_returns
  by (simp add: call_openai_def Let_def split: sum.split)

lemma analyze_with_ai_returns: "\<exists>s. fst (analyze_with_ai self prompt mt w) = Inr s"
proof -
  obtain s where s: "fst (call_lm_studio self prompt mt w) = Inr s"
    using call_lm_studio_returns by blast
  then obtain w1 where "call_lm_studio self prompt mt w = (Inr s, w1)"
    by (metis prod.collapse)
  then show ?thesis
    using call_openai_returns by (simp add: analyze_with_ai_def)
qed

lemma call_lm_studio_pair:
  "fst (call_lm_studio self prompt mt w) = Inr result \<Longrightarrow>
   call_lm_studio self prompt mt w = (Inr result, w\<lparr>calls := calls w @ [LM_Studio]\<rparr>)"
  using call_lm_studio_world [of self prompt mt w] by (metis prod.collapse)

lemma analyze_with_ai_direct:
  assumes "fst (call_lm_studio self prompt mt w) = Inr result"
    and "\<not> (is_substring ''Analysis unavailable'' result \<and> truthy (openai_key self))"
  shows "analyze_with_ai self prompt mt w = (Inr result, w\<lparr>calls := calls w @ [LM_Studio]\<rparr>)"
  using assms(2) call_lm_studio_pair [OF assms(1)] by (auto simp add: analyze_with_ai_def)

lemma analyze_with_ai_secondary:
  assumes "fst (call_lm_studio self prompt mt w) = Inr result"
    and "is_substring ''Analysis unavailable'' result" and "truthy (openai_key self)"
  shows "analyze_with_ai self prompt mt w =
     (case openai_replies w (count_list (calls w) OpenAI) of
        Inr content \<Rightarrow> (Inr (strip content), w\<lparr>calls := calls w @ [LM_Studio, OpenAI]\<rparr>)
      | Inl e \<Rightarrow> call_lm_studio self prompt mt (w\<lparr>calls := calls w @ [LM_Studio, OpenAI]\<rparr>))"
  using assms(2,3) call_lm_studio_pair [OF assms(1)]
  by (simp add: analyze_with_ai_def call_openai_def Let_def split: sum.split)

text \<open>
  C4, as amended: the chain asks the primary endpoint first; it asks the secondary
  provider, and returns its answer instead, exactly when the primary call's result
  contains the text "Analysis unavailable" and a non-empty secondary credential is
  configured; when the secondary request raises, the primary endpoint is asked again and
  the caller receives that call's output, which is the local fallback when the request
  fails again, and never an exception.
\<close>

theorem fallback_chain:
  assumes "fst (call_lm_studio self prompt mt w) = Inr result"
  shows "(\<exists>rest. calls (snd (analyze_with_ai self prompt mt w)) = calls w @ LM_Studio # rest)
    \<and> (OpenAI \<in> set (drop (length (calls w)) (calls (snd (analyze_with_ai self prompt mt w))))
         \<longleftrightarrow> is_substring ''Analysis unavailable'' result \<and> truthy (openai_key self))
    \<and> (\<not> (is_substring ''Analysis unavailable'' result \<and> truthy (openai_key self))
         \<longrightarrow> fst (analyze_with_ai self prompt mt w) = Inr result)
    \<and> (is_substring ''Analysis unavailable'' result \<and> truthy (openai_key self) \<longrightarrow>
         (case openai_replies w (count_list (calls w) OpenAI) of
            Inr content \<Rightarrow> fst (analyze_with_ai self prompt mt w) = Inr (strip content)
          | Inl e \<Rightarrow>
              fst (analyze_with_ai self prompt mt w)
                = fst (call_lm_studio self prompt mt (w\<lparr>calls := calls w @ [LM_Studio, OpenAI]\<rparr>))
              \<and> (request_failed (lm_studio_replies w (Suc (count_list (calls w) LM_Studio)))
                   \<longrightarrow> fst (analyze_with_ai self prompt mt w)
                         = Inr (fallback_analysis (clock w) prompt))))
    \<and> (\<exists>s. fst (analyze_with_ai self prompt mt w) = Inr s)"
proof (cases "is_substring ''Analysis unavailable'' result \<and> truthy (openai_key self)")
  case False
  then show ?thesis
    using analyze_with_ai_direct [OF assms False] by auto
next
  case True
  let ?w2 = "w\<lparr>calls := calls w @ [LM_Studio, OpenAI]\<rparr>"
  have sec: "analyze_with_ai self prompt mt w =
     (case openai_replies w (count_list (calls w) OpenAI) of
        Inr content \<Rightarrow> (Inr (strip content), ?w2)
      | Inl e \<Rightarrow> call_lm_studio self prompt mt ?w2)"
    using analyze_with_ai_secondary [OF assms] True by simp
  have retry: "request_failed (lm_studio_replies w (Suc (count_list (calls w) LM_Studio))) \<Longrightarrow>
      fst (call_lm_studio self prompt mt ?w2) = Inr (fallback_analysis (clock w) prompt)"
    using call_lm_studio_failed [of ?w2 self prompt mt] by simp
  show ?thesis
  proof (cases "openai_replies w (count_list (calls w) OpenAI)")
    case (Inr content)
    then show ?thesis using sec True by simp
  next
    case (Inl e)
    then have eq: "analyze_with_ai self prompt mt w = call_lm_studio self prompt mt ?w2"
      using sec by simp
    show ?thesis
      using True Inl retry call_lm_studio_returns [of self prompt mt ?w2]
      by (simp add: eq call_lm_studio_world)
  qed
qed

lemma fallback_analysis_priority:
  "is_substring ''priority'' prompt \<Longrightarrow> fallback_analysis now prompt = ''0.7''"
proof -
  assume "is_substring ''priority'' prompt"
  then have "is_substring (lower ''priority'') (lower prompt)" by (rule is_substring_lower)
  then show ?thesis by (simp add: lower_priority fallback_analysis_def)
qed

lemma analyze_with_ai_primary_failed:
  assumes "request_failed (lm_studio_replies w (count_list (calls w) LM_Studio))"
    and "\<not> truthy (openai_key self)"
  shows "fst (analyze_with_ai self prompt mt w) = Inr (fallback_analysis (clock w) prompt)"
proof -
  have "fst (call_lm_studio self prompt mt w) = Inr (fallback_analysis (clock w) prompt)"
    using assms(1) by (rule call_lm_studio_failed)
  then show ?thesis
    using assms(2) analyze_with_ai_direct by simp
qed

text \<open>
  C3: the gateway never raises. \<open>call_lm_studio\<close> and \<open>analyze_with_ai\<close> return a text
  for every prompt and every world; a failed primary request (an exception, a status
  other than 200, an unreadable body) yields \<open>_fallback_analysis\<close> of the prompt, which
  is also what \<open>analyze_with_ai\<close> returns when no secondary credential is configured; a
  prompt containing "priority" then gives exactly "0.7". The fallback looks, ignoring
  case, for "priority", "deadline", "category" and "tags" in this order and answers
  "0.7", the date three days ahead as year-month-day, "General", "task, general", or
  else the unavailability sentinel.
\<close>

theorem gateway_never_raises:
  "(\<exists>s. fst (call_lm_studio self prompt mt w) = Inr s)
   \<and> (\<exists>s. fst (analyze_with_ai self prompt mt w) = Inr s)
   \<and> (request_failed (lm_studio_replies w (count_list (calls w) LM_Studio)) \<longrightarrow>
        fst (call_lm_studio self prompt mt w) = Inr (fallback_analysis (clock w) prompt))
   \<and> (request_failed (lm_studio_replies w (count_list (calls w) LM_Studio))
        \<and> \<not> truthy (openai_key self) \<longrightarrow>
        fst (analyze_with_ai self prompt mt w) = Inr (fallback_analysis (clock w) prompt))
   \<and> (request_failed (lm_studio_replies w (count_list (calls w) LM_Studio))
        \<and> \<not> truthy (openai_key self) \<and> is_substring ''priority'' prompt \<longrightarrow>
        fst (analyze_with_ai self prompt mt w) = Inr ''0.7'')
   \<and> (is_substring ''priority'' (lower prompt) \<longrightarrow> fallback_analysis now prompt = ''0.7'')
   \<and> (\<not> is_substring ''priority'' (lower prompt) \<and> is_substring ''deadline'' (lower prompt) \<longrightarrow>
        fallback_analysis now prompt = strftime_ymd (now + timedelta_days 3))
   \<and> (\<not> is_substring ''priority'' (lower prompt) \<and> \<not> is_substring ''deadline'' (lower prompt)
        \<and> is_substring ''category'' (lower prompt) \<longrightarrow>
        fallback_analysis now prompt = ''General'')
   \<and> (\<not> is_substring ''priority'' (lower prompt) \<and> \<not> is_substring ''deadline'' (lower prompt)
        \<and> \<not> is_substring ''category'' (lower prompt) \<and> is_substring ''tags'' (lower prompt) \<longrightarrow>
        fallback_analysis now prompt = ''task, general'')
   \<and> (\<not> is_substring ''priority'' (lower prompt) \<and> \<not> is_substring ''deadline'' (lower prompt)
        \<and> \<not> is_substring ''category'' (lower prompt) \<and> \<not> is_substring ''tags'' (lower prompt) \<longrightarrow>
        fallback_analysis now prompt = ''Analysis unavailable - using defaults'')"
proof -
  have order: "(is_substring ''priority'' (lower prompt) \<longrightarrow> fallback_analysis now prompt = ''0.7'')
   \<and> (\<not> is_substring ''priority'' (lower prompt) \<and> is_substring ''deadline'' (lower prompt) \<longrightarrow>
        fallback_analysis now prompt = strftime_ymd (now + timedelta_days 3))
   \<and> (\<not> is_substring ''priority'' (lower prompt) \<and> \<not> is_substring ''deadline'' (lower prompt)
        \<and> is_substring ''category'' (lower prompt) \<longrightarrow>
        fallback_analysis now prompt = ''General'')
   \<and> (\<not> is_substring ''priority'' (lower prompt) \<and> \<not> is_substring ''deadline'' (lower prompt)
        \<and> \<not> is_substring ''category'' (lower prompt) \<and> is_substring ''tags'' (lower prompt) \<longrightarrow>
        fallback_analysis now prompt = ''task, general'')
   \<and> (\<not> is_substring ''priority'' (lower prompt) \<and> \<not> is_substring ''deadline'' (lower prompt)
        \<and> \<not> is_substring ''category'' (lower prompt) \<and> \<not> is_substring ''tags'' (lower prompt) \<longrightarrow>
        fallback_analysis now prompt = ''Analysis unavailable - using defaults'')"
    by (simp add: fallback_analysis_def Let_def)
  show ?thesis
    using call_lm_studio_returns [of self prompt mt w] analyze_with_ai_returns [of self prompt mt w]
      call_lm_studio_failed [of w self prompt mt]
      analyze_with_ai_primary_failed [of w self prompt mt]
      fallback_analysis_priority [of prompt "clock w"] order
    by simp
qed

text \<open>
  The gateway with the primary endpoint unreachable and no credential, at noon of
  2026-11-03: a priority prompt gives "0.7", a deadline prompt gives "2026-11-06".
\<close>

theorem gateway_never_raises_witness:
  "request_failed (lm_studio_replies offline_world (count_list (calls offline_world) LM_Studio))
   \<and> \<not> truthy (openai_key client_without_keys)
   \<and> is_substring ''priority'' ''What is the priority of this?''
   \<and> fst (analyze_with_ai client_without_keys ''What is the priority of this?'' 100 offline_world)
       = Inr ''0.7''
   \<and> \<not> is_substring ''priority'' (lower ''Suggest a DEADLINE'')
   \<and> is_substring ''deadline'' (lower ''Suggest a DEADLINE'')
   \<and> fst (analyze_with_ai client_without_keys ''Suggest a DEADLINE'' 100 offline_world)
       = Inr ''2026-11-06''"
proof -
  have h: "request_failed (lm_studio_replies offline_world (count_list (calls offline_world) LM_Studio))
     \<and> \<not> truthy (openai_key client_without_keys)
     \<and> is_substring ''priority'' ''What is the priority of this?''
     \<and> \<not> is_substring ''priority'' (lower ''Suggest a DEADLINE'')
     \<and> is_substring ''deadline'' (lower ''Suggest a DEADLINE'')"
    by code_simp
  have d: "strftime_ymd (clock offline_world + timedelta_days 3) = ''2026-11-06''"
    by code_simp
  note p = gateway_never_raises [of client_without_keys "''What is the priority of this?''" 100
        offline_world "clock offline_world"]
  note q = gateway_never_raises [of client_without_keys "''Suggest a DEADLINE''" 100
        offline_world "clock offline_world"]
  have a: "fst (analyze_with_ai client_without_keys ''What is the priority of this?'' 100 offline_world)
       = Inr ''0.7''"
    using h p by blast
  have b: "fst (analyze_with_ai client_without_keys ''Suggest a DEADLINE'' 100 offline_world)
       = Inr (fallback_analysis (clock offline_world) ''Suggest a DEADLINE'')"
    using h q by blast
  have c: "fallback_analysis (clock offline_world) ''Suggest a DEADLINE''
       = strftime_ymd (clock offline_world + timedelta_days 3)"
    using h q by blast
  show ?thesis
    using h a b c d by simp
qed

text \<open>
  C4 as stated fails: a primary answer that only contains "Analysis unavailable", and is
  not the unavailability sentinel, sends the call to the secondary provider too.
\<close>

theorem secondary_on_containment_counterexample:
  "fst (call_lm_studio client_with_openai_key ''Summarize this'' 100
          (lm_studio_says ''Analysis unavailable right now''))
     = Inr ''Analysis unavailable right now''
   \<and> ''Analysis unavailable right now'' \<noteq> ''Analysis unavailable - using defaults''
   \<and> calls (snd (analyze_with_ai client_with_openai_key ''Summarize this'' 100
          (lm_studio_says ''Analysis unavailable right now''))) = [LM_Studio, OpenAI]
   \<and> fst (analyze_with_ai client_with_openai_key ''Summarize this'' 100
          (lm_studio_says ''Analysis unavailable right now'')) = Inr ''hello from the secondary''"
  by code_simp

text \<open>
  The chain in a world where nothing can be reached, with a secondary credential: the
  primary result is the sentinel, the secondary is asked, and a text comes back.
\<close>

theorem fallback_chain_witness:
  "fst (call_lm_studio client_with_openai_key ''Summarize this'' 100 offline_world)
     = Inr ''Analysis unavailable - using defaults''
   \<and> is_substring ''Analysis unavailable'' ''Analysis unavailable - using defaults''
   \<and> truthy (openai_key client_with_openai_key)
   \<and> OpenAI \<in> set (drop (length (calls offline_world))
        (calls (snd (analyze_with_ai client_with_openai_key ''Summarize this'' 100 offline_world))))
   \<and> (\<exists>s. fst (analyze_with_ai client_with_openai_key ''Summarize this'' 100 offline_world) = Inr s)"
proof -
  have h: "fst (call_lm_studio client_with_openai_key ''Summarize this'' 100 offline_world)
     = Inr ''Analysis unavailable - using defaults''"
    by code_simp
  have c: "is_substring ''Analysis unavailable'' ''Analysis unavailable - using defaults''
    \<and> truthy (openai_key client_with_openai_key)"
    by code_simp
  show ?thesis
    using h c fallback_chain [OF h] by blast
qed

section \<open>Properties of the task analyzer: priority\<close>

lemma gateway_primary_failed_priority:
  assumes "request_failed (lm_studio_replies w (count_list (calls w) LM_Studio))"
  shows "gateway self w (priority_prompt task_title task_description context_info) max_tokens
           = Inr ''0.7''"
proof -
  let ?prompt = "priority_prompt task_title task_description context_info"
  have fb: "fallback_analysis (clock w) ?prompt = ''0.7''"
    using priority_prompt_mentions_priority by (simp add: fallback_analysis_def)
  have "fst (call_lm_studio self ?prompt max_tokens w) = Inr ''0.7''"
    using call_lm_studio_failed [OF assms] fb by simp
  moreover have "\<not> is_substring ''Analysis unavailable'' ''0.7''" by code_simp
  ultimately have "analyze_with_ai self ?prompt max_tokens w
      = (Inr ''0.7'', w\<lparr>calls := calls w @ [LM_Studio]\<rparr>)"
    using analyze_with_ai_direct by simp
  then show ?thesis by (simp add: gateway_def)
qed

lemma priority_of_seven_tenths:
  "(case findall_decimal ''0.7'' of Some number \<Rightarrow> py_float number | None \<Rightarrow> 0.5) = 7 / 10"
  by code_simp

lemma calculate_fallback_priority_example:
  "calculate_fallback_priority ''URGENT:'' ''fix this today'' = 9 / 10
   \<and> calculate_fallback_priority ''Finish the report'' ''the deadline is Friday'' = 7 / 10
   \<and> calculate_fallback_priority ''Team meeting'' ''sync with the others'' = 6 / 10
   \<and> calculate_fallback_priority ''Buy milk'' ''two bottles'' = 5 / 10"
  by code_simp

text \<open>
  C1 as stated fails: with the primary endpoint unreachable and no credential, the
  gateway answers the priority prompt with its default "0.7" and does not raise, so
  \<open>analyze_task_priority\<close> on "URGENT: fix this today" returns 0.7 and not 0.9.
\<close>

theorem analyze_task_priority_unavailable_counterexample:
  "analyze_task_priority (gateway client_without_keys offline_world)
      ''URGENT:'' ''fix this today'' None = 7 / 10
   \<and> analyze_task_priority (gateway client_without_keys offline_world)
      ''URGENT:'' ''fix this today'' None \<noteq> 9 / 10"
  by code_simp

text \<open>
  C1, as amended: when the request to the primary endpoint fails, the gateway answers
  the priority prompt with "0.7" and \<open>analyze_task_priority\<close> returns 0.7, whatever the
  task says; when the gateway call raises, \<open>analyze_task_priority\<close> returns the value of
  \<open>_calculate_fallback_priority\<close>, which yields exactly the tier values: 0.9 if the text
  contains any of urgent, critical, asap, emergency, else 0.7 for important, priority,
  deadline, else 0.6 for meeting, call, presentation, else 0.5; on "URGENT: fix this
  today" it yields 0.9.
\<close>

theorem priority_fallback:
  "(request_failed (lm_studio_replies w (count_list (calls w) LM_Studio)) \<longrightarrow>
      analyze_task_priority (gateway self w) task_title task_description context_data = 7 / 10)
   \<and> (ai (priority_prompt task_title task_description (priority_context_info context_data)) 100
        = Inl e \<longrightarrow>
      analyze_task_priority ai task_title task_description context_data
        = calculate_fallback_priority task_title task_description)
   \<and> (any_in [''urgent'', ''critical'', ''asap'', ''emergency''] (lower (title @ '' '' @ description))
        \<longrightarrow> calculate_fallback_priority title description = 9 / 10)
   \<and> (\<not> any_in [''urgent'', ''critical'', ''asap'', ''emergency''] (lower (title @ '' '' @ description))
        \<and> any_in [''important'', ''priority'', ''deadline''] (lower (title @ '' '' @ description))
        \<longrightarrow> calculate_fallback_priority title description = 7 / 10)
   \<and> (\<not> any_in [''urgent'', ''critical'', ''asap'', ''emergency''] (lower (title @ '' '' @ description))
        \<and> \<not> any_in [''important'', ''priority'', ''deadline''] (lower (title @ '' '' @ description))
        \<and> any_in [''meeting'', ''call'', ''presentation''] (lower (title @ '' '' @ description))
        \<longrightarrow> calculate_fallback_priority title description = 6 / 10)
   \<and> (\<not> any_in [''urgent'', ''critical'', ''asap'', ''emergency''] (lower (title @ '' '' @ description))
        \<and> \<not> any_in [''important'', ''priority'', ''deadline''] (lower (title @ '' '' @ description))
        \<and> \<not> any_in [''meeting'', ''call'', ''presentation''] (lower (title @ '' '' @ description))
        \<longrightarrow> calculate_fallback_priority title description = 5 / 10)
   \<and> calculate_fallback_priority ''URGENT:'' ''fix this today'' = 9 / 10
   \<and> calculate_fallback_priority ''Finish the report'' ''the deadline is Friday'' = 7 / 10
   \<and> calculate_fallback_priority ''Team meeting'' ''sync with the others'' = 6 / 10
   \<and> calculate_fallback_priority ''Buy milk'' ''two bottles'' = 5 / 10"
proof -
  have a: "request_failed (lm_studio_replies w (count_list (calls w) LM_Studio)) \<longrightarrow>
      analyze_task_priority (gateway self w) task_title task_description context_data = 7 / 10"
    using gateway_primary_failed_priority [of w self] priority_of_seven_tenths
    by (simp add: analyze_task_priority_def Let_def)
  have b: "ai (priority_prompt task_title task_description (priority_context_info context_data)) 100
        = Inl e \<longrightarrow>
      analyze_task_priority ai task_title task_description context_data
        = calculate_fallback_priority task_title task_description"
    by (simp add: analyze_task_priority_def Let_def)
  have c: "(any_in [''urgent'', ''critical'', ''asap'', ''emergency''] (lower (title @ '' '' @ description))
        \<longrightarrow> calculate_fallback_priority title description = 9 / 10)
   \<and> (\<not> any_in [''urgent'', ''critical'', ''asap'', ''emergency''] (lower (title @ '' '' @ description))
        \<and> any_in [''important'', ''priority'', ''deadline''] (lower (title @ '' '' @ description))
        \<longrightarrow> calculate_fallback_priority title description = 7 / 10)
   \<and> (\<not> any_in [''urgent'', ''critical'', ''asap'', ''emergency''] (lower (title @ '' '' @ description))
        \<and> \<not> any_in [''important'', ''priority'', ''deadline''] (lower (title @ '' '' @ description))
        \<and> any_in [''meeting'', ''call'', ''presentation''] (lower (title @ '' '' @ description))
        \<longrightarrow> calculate_fallback_priority title description = 6 / 10)
   \<and> (\<not> any_in [''urgent'', ''critical'', ''asap'', ''emergency''] (lower (title @ '' '' @ description))
        \<and> \<not> any_in [''important'', ''priority'', ''deadline''] (lower (title @ '' '' @ description))
        \<and> \<not> any_in [''meeting'', ''call'', ''presentation''] (lower (title @ '' '' @ description))
        \<longrightarrow> calculate_fallback_priority title description = 5 / 10)"
    by (simp add: calculate_fallback_priority_def Let_def)
  show ?thesis
    using a b c calculate_fallback_priority_example by blast
qed

text \<open>
  The two ways out of \<open>analyze_task_priority\<close> on "URGENT: fix this today": 0.7 through
  the unreachable gateway, 0.9 through a gateway call that raises.
\<close>

theorem priority_fallback_witness:
  "request_failed (lm_studio_replies offline_world (count_list (calls offline_world) LM_Studio))
   \<and> analyze_task_priority (gateway client_without_keys offline_world)
        ''URGENT:'' ''fix this today'' None = 7 / 10
   \<and> analyze_task_priority (\<lambda>prompt max_tokens. Inl refused) ''URGENT:'' ''fix this today'' None
        = calculate_fallback_priority ''URGENT:'' ''fix this today''
   \<and> any_in [''urgent'', ''critical'', ''asap'', ''emergency'']
        (lower (''URGENT:'' @ '' '' @ ''fix this today''))
   \<and> calculate_fallback_priority ''URGENT:'' ''fix this today'' = 9 / 10"
proof -
  have h: "request_failed (lm_studio_replies offline_world (count_list (calls offline_world) LM_Studio))
     \<and> any_in [''urgent'', ''critical'', ''asap'', ''emergency'']
        (lower (''URGENT:'' @ '' '' @ ''fix this today''))"
    by code_simp
  note p = priority_fallback [where w = offline_world and self = client_without_keys
      and task_title = "''URGENT:''" and task_description = "''fix this today''"
      and context_data = None and ai = "\<lambda>prompt max_tokens. Inl refused" and e = refused
      and title = "''URGENT:''" and description = "''fix this today''"]
  show ?thesis
    using h p by simp
qed

section \<open>Properties of the task analyzer: deadline\<close>

lemma py_int_nonneg: "py_int max_str_digits s = Inr n \<Longrightarrow> 0 \<le> n"
  by (auto simp add: py_int_def split: if_splits)

lemma calculate_fallback_deadline_cases:
  "calculate_fallback_deadline now description
     \<in> {now + timedelta_days 1, now + timedelta_days 2, now + timedelta_days 7,
         now + timedelta_days 3}"
  by (simp add: calculate_fallback_deadline_def Let_def)

lemma calculate_fallback_deadline_range:
  "now \<le> calculate_fallback_deadline now description
   \<and> calculate_fallback_deadline now description \<le> now + timedelta_days 30"
  using calculate_fallback_deadline_cases [of now description]
  by (auto simp add: timedelta_days_def)

lemma suggest_deadline_try_range:
  assumes "suggest_deadline_try ai now max_str_digits prompt = Inr deadline"
  shows "now \<le> deadline \<and> deadline \<le> now + timedelta_days 30"
proof (cases "ai prompt 100")
  case (Inl e)
  then show ?thesis using assms by (simp add: suggest_deadline_try_def)
next
  case (Inr result)
  show ?thesis
  proof (cases "findall_digits result")
    case Nil
    then have "deadline = now + timedelta_days 3"
      using assms Inr by (simp add: suggest_deadline_try_def)
    then show ?thesis by (simp add: timedelta_days_def)
  next
    case (Cons first_run other_runs)
    show ?thesis
    proof (cases "py_int max_str_digits first_run")
      case (Inl e)
      then show ?thesis using assms Inr Cons by (simp add: suggest_deadline_try_def)
    next
      case inr: (Inr n)
      then have d: "deadline = now + timedelta_days (min n 30)"
        using assms Inr Cons by (simp add: suggest_deadline_try_def Let_def)
      have "0 \<le> n" using inr by (rule py_int_nonneg)
      then show ?thesis unfolding d by (simp add: timedelta_days_def min_def)
    qed
  qed
qed

text \<open>
  C10: for every title, description, workload and every gateway (whatever text it
  answers, or if it raises), \<open>suggest_deadline\<close> returns a time between now and now plus
  30 days: the answer's first run of digits, read as a number, is capped at 30 days, an
  answer without digits gives 3 days, and the deterministic fallback adds 1, 2, 7 or 3
  days.
\<close>

theorem suggest_deadline_within_thirty_days:
  "now \<le> suggest_deadline ai now max_str_digits task_title task_description current_workload
   \<and> suggest_deadline ai now max_str_digits task_title task_description current_workload
        \<le> now + timedelta_days 30
   \<and> (\<forall>result first_run other_runs n.
        ai (deadline_prompt task_title task_description current_workload) 100 = Inr result
        \<and> findall_digits result = first_run # other_runs
        \<and> py_int max_str_digits first_run = Inr n \<longrightarrow>
        suggest_deadline ai now max_str_digits task_title task_description current_workload
          = now + timedelta_days (min n 30))
   \<and> (\<forall>result.
        ai (deadline_prompt task_title task_description current_workload) 100 = Inr result
        \<and> findall_digits result = [] \<longrightarrow>
        suggest_deadline ai now max_str_digits task_title task_description current_workload
          = now + timedelta_days 3)
   \<and> calculate_fallback_deadline now task_description
        \<in> {now + timedelta_days 1, now + timedelta_days 2, now + timedelta_days 7,
            now + timedelta_days 3}"
proof -
  let ?prompt = "deadline_prompt task_title task_description current_workload"
  have range: "now \<le> suggest_deadline ai now max_str_digits task_title task_description current_workload
   \<and> suggest_deadline ai now max_str_digits task_title task_description current_workload
        \<le> now + timedelta_days 30"
  proof (cases "suggest_deadline_try ai now max_str_digits ?prompt")
    case (Inl e)
    then show ?thesis
      using calculate_fallback_deadline_range [of now task_description]
      by (simp add: suggest_deadline_def Let_def)
  next
    case (Inr deadline)
    then show ?thesis
      using suggest_deadline_try_range [OF Inr] by (simp add: suggest_deadline_def Let_def)
  qed
  have ai_path: "\<forall>result first_run other_runs n.
        ai ?prompt 100 = Inr result
        \<and> findall_digits result = first_run # other_runs
        \<and> py_int max_str_digits first_run = Inr n \<longrightarrow>
        suggest_deadline ai now max_str_digits task_title task_description current_workload
          = now + timedelta_days (min n 30)"
    by (simp add: suggest_deadline_def suggest_deadline_try_def Let_def)
  have no_number: "\<forall>result.
        ai ?prompt 100 = Inr result \<and> findall_digits result = [] \<longrightarrow>
        suggest_deadline ai now max_str_digits task_title task_description current_workload
          = now + timedelta_days 3"
    by (simp add: suggest_deadline_def suggest_deadline_try_def Let_def)
  show ?thesis
    using range ai_path no_number calculate_fallback_deadline_cases [of now task_description]
    by blast
qed

text \<open>
  An answer "About 45 days" from LM Studio is capped: the deadline is 30 days ahead.
\<close>

theorem suggest_deadline_within_thirty_days_witness:
  "gateway client_without_keys (lm_studio_says ''About 45 days'')
      (deadline_prompt ''Report'' ''write it up'' 5) 100 = Inr ''About 45 days''
   \<and> findall_digits ''About 45 days'' = [''45'']
   \<and> py_int 4300 ''45'' = Inr 45
   \<and> suggest_deadline (gateway client_without_keys (lm_studio_says ''About 45 days''))
        63929304000000000 4300 ''Report'' ''write it up'' 5
        = 63929304000000000 + timedelta_days (min 45 30)
   \<and> suggest_deadline (gateway client_without_keys (lm_studio_says ''About 45 days''))
        63929304000000000 4300 ''Report'' ''write it up'' 5
        \<le> 63929304000000000 + timedelta_days 30"
proof -
  have h: "gateway client_without_keys (lm_studio_says ''About 45 days'')
      (deadline_prompt ''Report'' ''write it up'' 5) 100 = Inr ''About 45 days''
   \<and> findall_digits ''About 45 days'' = [''45'']
   \<and> py_int 4300 ''45'' = Inr 45"
    by code_simp
  note p = suggest_deadline_within_thirty_days
    [where ai = "gateway client_without_keys (lm_studio_says ''About 45 days'')"
       and now = 63929304000000000 and max_str_digits = 4300 and task_title = "''Report''"
       and task_description = "''write it up''" and current_workload = 5]
  have "suggest_deadline (gateway client_without_keys (lm_studio_says ''About 45 days''))
        63929304000000000 4300 ''Report'' ''write it up'' 5
        = 63929304000000000 + timedelta_days (min 45 30)"
    using h p by blast
  then show ?thesis
    using h p by blast
qed

text \<open>
  C2 as stated fails: with the primary endpoint unreachable and no credential, at noon
  of 2026-11-03, \<open>suggest_deadline\<close> for "please do this asap" does not return now plus
  1 day. The gateway does not raise; it answers the deadline prompt with the date
  "2026-11-06", whose first run of digits is read as a number of days.
\<close>

theorem suggest_deadline_unavailable_counterexample:
  "suggest_deadline (gateway client_without_keys offline_world) (clock offline_world) 4300
      ''Report'' ''please do this asap'' 5 = clock offline_world + timedelta_days 30
   \<and> suggest_deadline (gateway client_without_keys offline_world) (clock offline_world) 4300
      ''Report'' ''please do this asap'' 5 \<noteq> clock offline_world + timedelta_days 1"
  by code_simp

lemma calculate_fallback_deadline_asap:
  "calculate_fallback_deadline now ''please do this asap'' = now + timedelta_days 1"
proof -
  have "any_in [''urgent'', ''asap'', ''today''] (lower ''please do this asap'')"
    by code_simp
  then show ?thesis by (simp add: calculate_fallback_deadline_def Let_def)
qed

text \<open>
  C2, as amended: \<open>suggest_deadline\<close> returns the value of the deterministic fallback
  \<open>_calculate_fallback_deadline\<close> when the gateway call raises or the conversion of the
  answer's number raises; that fallback gives now plus 1 day for urgent, asap, today,
  plus 2 days for tomorrow, soon, plus 7 days for week, weekly and plus 3 days otherwise,
  so now plus 1 day for "please do this asap". The gateway of the program answers the
  deadline prompt with a text in every world, so an unavailable service is not a raise.
\<close>

theorem deadline_fallback:
  "(ai (deadline_prompt task_title task_description current_workload) 100 = Inl e \<longrightarrow>
      suggest_deadline ai now max_str_digits task_title task_description current_workload
        = calculate_fallback_deadline now task_description)
   \<and> (\<forall>result first_run other_runs e'.
        ai (deadline_prompt task_title task_description current_workload) 100 = Inr result
        \<and> findall_digits result = first_run # other_runs
        \<and> py_int max_str_digits first_run = Inl e' \<longrightarrow>
        suggest_deadline ai now max_str_digits task_title task_description current_workload
          = calculate_fallback_deadline now task_description)
   \<and> (any_in [''urgent'', ''asap'', ''today''] (lower description) \<longrightarrow>
        calculate_fallback_deadline now description = now + timedelta_days 1)
   \<and> (\<not> any_in [''urgent'', ''asap'', ''today''] (lower description)
        \<and> any_in [''tomorrow'', ''soon''] (lower description) \<longrightarrow>
        calculate_fallback_deadline now description = now + timedelta_days 2)
   \<and> (\<not> any_in [''urgent'', ''asap'', ''today''] (lower description)
        \<and> \<not> any_in [''tomorrow'', ''soon''] (lower description)
        \<and> any_in [''week'', ''weekly''] (lower description) \<longrightarrow>
        calculate_fallback_deadline now description = now + timedelta_days 7)
   \<and> (\<not> any_in [''urgent'', ''asap'', ''today''] (lower description)
        \<and> \<not> any_in [''tomorrow'', ''soon''] (lower description)
        \<and> \<not> any_in [''week'', ''weekly''] (lower description) \<longrightarrow>
        calculate_fallback_deadline now description = now + timedelta_days 3)
   \<and> calculate_fallback_deadline now ''please do this asap'' = now + timedelta_days 1
   \<and> (\<exists>answer. gateway self w (deadline_prompt task_title task_description current_workload) 100
          = Inr answer)"
proof -
  have g: "\<exists>answer. gateway self w (deadline_prompt task_title task_description current_workload) 100
          = Inr answer"
    using analyze_with_ai_returns
      [of self "deadline_prompt task_title task_description current_workload" 100 w]
    by (simp add: gateway_def)
  have a: "ai (deadline_prompt task_title task_description current_workload) 100 = Inl e \<longrightarrow>
      suggest_deadline ai now max_str_digits task_title task_description current_workload
        = calculate_fallback_deadline now task_description"
    by (simp add: suggest_deadline_def suggest_deadline_try_def Let_def)
  have b: "\<forall>result first_run other_runs e'.
        ai (deadline_prompt task_title task_description current_workload) 100 = Inr result
        \<and> findall_digits result = first_run # other_runs
        \<and> py_int max_str_digits first_run = Inl e' \<longrightarrow>
        suggest_deadline ai now max_str_digits task_title task_description current_workload
          = calculate_fallback_deadline now task_description"
    by (simp add: suggest_deadline_def suggest_deadline_try_def Let_def)
  have c: "(any_in [''urgent'', ''asap'', ''today''] (lower description) \<longrightarrow>
        calculate_fallback_deadline now description = now + timedelta_days 1)
   \<and> (\<not> any_in [''urgent'', ''asap'', ''today''] (lower description)
        \<and> any_in [''tomorrow'', ''soon''] (lower description) \<longrightarrow>
        calculate_fallback_deadline now description = now + timedelta_days 2)
   \<and> (\<not> any_in [''urgent'', ''asap'', ''today''] (lower description)
        \<and> \<not> any_in [''tomorrow'', ''soon''] (lower description)
        \<and> any_in [''week'', ''weekly''] (lower description) \<longrightarrow>
        calculate_fallback_deadline now description = now + timedelta_days 7)
   \<and> (\<not> any_in [''urgent'', ''asap'', ''today''] (lower description)
        \<and> \<not> any_in [''tomorrow'', ''soon''] (lower description)
        \<and> \<not> any_in [''week'', ''weekly''] (lower description) \<longrightarrow>
        calculate_fallback_deadline now description = now + timedelta_days 3)"
    by (simp add: calculate_fallback_deadline_def Let_def)
  show ?thesis
    using a b c g calculate_fallback_deadline_asap [of now] by blast
qed

text \<open>
  A gateway call that raises, with the description "please do this asap": one day; the
  fallback on "every week, on Monday": seven days.
\<close>

theorem deadline_fallback_witness:
  "suggest_deadline (\<lambda>prompt max_tokens. Inl refused) 63929304000000000 4300
      ''Report'' ''please do this asap'' 5
     = calculate_fallback_deadline 63929304000000000 ''please do this asap''
   \<and> any_in [''urgent'', ''asap'', ''today''] (lower ''please do this asap'')
   \<and> calculate_fallback_deadline 63929304000000000 ''please do this asap''
     = 63929304000000000 + timedelta_days 1
   \<and> \<not> any_in [''urgent'', ''asap'', ''today''] (lower ''every week, on Monday'')
   \<and> \<not> any_in [''tomorrow'', ''soon''] (lower ''every week, on Monday'')
   \<and> any_in [''week'', ''weekly''] (lower ''every week, on Monday'')
   \<and> calculate_fallback_deadline 63929304000000000 ''every week, on Monday''
     = 63929304000000000 + timedelta_days 7"
proof -
  have h: "any_in [''urgent'', ''asap'', ''today''] (lower ''please do this asap'')
   \<and> \<not> any_in [''urgent'', ''asap'', ''today''] (lower ''every week, on Monday'')
   \<and> \<not> any_in [''tomorrow'', ''soon''] (lower ''every week, on Monday'')
   \<and> any_in [''week'', ''weekly''] (lower ''every week, on Monday'')"
    by code_simp
  note p = deadline_fallback [where ai = "\<lambda>prompt max_tokens. Inl refused" and e = refused
      and now = 63929304000000000 and max_str_digits = 4300 and task_title = "''Report''"
      and task_description = "''please do this asap''" and current_workload = 5
      and description = "''please do this asap''"]
  note q = deadline_fallback [where ai = "\<lambda>prompt max_tokens. Inl refused" and e = refused
      and now = 63929304000000000 and max_str_digits = 4300 and task_title = "''Report''"
      and task_description = "''please do this asap''" and current_workload = 5
      and description = "''every week, on Monday''"]
  show ?thesis
    using h p q by simp
qed

section \<open>Properties of the task analyzer: tags\<close>

lemma suggest_fallback_tags_length:
  "1 \<le> length (suggest_fallback_tags title description)
   \<and> length (suggest_fallback_tags title description) \<le> 3"
  by (simp add: suggest_fallback_tags_def Let_def)

text \<open>
  C9: the deterministic fallback suggests between 1 and 3 tags, and \<open>suggest_tags\<close>
  returns at most 5 tags for every gateway and every task. Both caps are reached: an
  answer with six comma-separated tags is cut to 5, a task matching four keyword rules
  gets the first 3 tags, and a task matching no rule gets the tag "task".
\<close>

theorem tag_caps:
  "1 \<le> length (suggest_fallback_tags task_title task_description)
   \<and> length (suggest_fallback_tags task_title task_description) \<le> 3
   \<and> length (suggest_tags ai task_title task_description) \<le> 5
   \<and> length (suggest_tags (\<lambda>prompt max_tokens. Inr ''a,b,c,d,e,f'') task_title task_description) = 5
   \<and> suggest_fallback_tags ''URGENT call'' ''follow up on the project at home''
        = [''urgent'', ''meeting'', ''work'']
   \<and> suggest_fallback_tags ''Buy milk'' ''two bottles'' = [''task'']"
proof -
  have ai_cap: "length (suggest_tags ai task_title task_description) \<le> 5"
    using suggest_fallback_tags_length [of task_title task_description]
    by (simp add: suggest_tags_def Let_def split: sum.split)
  have five: "length (take 5 (map (\<lambda>tag. lower (strip tag)) (split_on CHR '','' ''a,b,c,d,e,f''))) = 5"
    by code_simp
  have ex5: "length (suggest_tags (\<lambda>prompt max_tokens. Inr ''a,b,c,d,e,f'') task_title task_description) = 5"
    using five by (simp add: suggest_tags_def Let_def)
  have ex3: "suggest_fallback_tags ''URGENT call'' ''follow up on the project at home''
        = [''urgent'', ''meeting'', ''work'']
      \<and> suggest_fallback_tags ''Buy milk'' ''two bottles'' = [''task'']"
    by code_simp
  show ?thesis
    using suggest_fallback_tags_length [of task_title task_description] ai_cap ex5 ex3 by blast
qed

section \<open>Properties of the context processor\<close>


lemma any_in_count_present: "any_in ws t \<longleftrightarrow> 0 < count_present ws t"
  by (simp add: any_in_def count_present_def list_ex_iff filter_empty_conv)

lemma analyze_sentiment_counts:
  "analyze_sentiment text =
     (if count_present positive_words (lower text) + count_present negative_words (lower text) = 0
      then 1 / 2
      else real (count_present positive_words (lower text))
           / (real (count_present positive_words (lower text))
              + real (count_present negative_words (lower text))))"
  by (simp add: analyze_sentiment_def count_present_def Let_def)

lemma analyze_sentiment_range: "0 \<le> analyze_sentiment text \<and> analyze_sentiment text \<le> 1"
  unfolding analyze_sentiment_counts by (simp add: divide_le_eq)

text \<open>
  C8: for every text, \<open>analyze_sentiment\<close> returns a value between 0 and 1; exactly 0.5
  when no word of the positive list and no word of the negative list occurs as a
  substring of the lower-cased text, and otherwise positive / (positive + negative),
  where positive and negative are the numbers of words of the two lists that occur as
  substrings of the lower-cased text.
\<close>

theorem analyze_sentiment_correct:
  "0 \<le> analyze_sentiment text \<and> analyze_sentiment text \<le> 1
   \<and> (\<not> any_in positive_words (lower text) \<and> \<not> any_in negative_words (lower text) \<longrightarrow>
        analyze_sentiment text = 1 / 2)
   \<and> (any_in positive_words (lower text) \<or> any_in negative_words (lower text) \<longrightarrow>
        analyze_sentiment text
          = real (count_present positive_words (lower text))
            / (real (count_present positive_words (lower text))
               + real (count_present negative_words (lower text))))"
  using analyze_sentiment_range [of "text"]
  by (auto simp add: analyze_sentiment_counts any_in_count_present)

text \<open>
  A text without any listed word is neutral; in "GREAT idea, but I dislike the
  colour" the positive words great and like (inside dislike) and the negative word
  dislike occur: 2 / 3.
\<close>

theorem analyze_sentiment_correct_witness:
  "\<not> any_in positive_words (lower ''Hello World'')
   \<and> \<not> any_in negative_words (lower ''Hello World'')
   \<and> analyze_sentiment ''Hello World'' = 1 / 2
   \<and> any_in positive_words (lower ''GREAT idea, but I dislike the colour'')
   \<and> count_present positive_words (lower ''GREAT idea, but I dislike the colour'') = 2
   \<and> count_present negative_words (lower ''GREAT idea, but I dislike the colour'') = 1
   \<and> analyze_sentiment ''GREAT idea, but I dislike the colour'' = 2 / 3"
proof -
  have h: "\<not> any_in positive_words (lower ''Hello World'')
   \<and> \<not> any_in negative_words (lower ''Hello World'')
   \<and> any_in positive_words (lower ''GREAT idea, but I dislike the colour'')
   \<and> count_present positive_words (lower ''GREAT idea, but I dislike the colour'') = 2
   \<and> count_present negative_words (lower ''GREAT idea, but I dislike the colour'') = 1"
    by code_simp
  show ?thesis
    using h analyze_sentiment_correct [of "''Hello World''"]
      analyze_sentiment_correct [of "''GREAT idea, but I dislike the colour''"]
    by simp
qed

text \<open>
  C7: for every content and source type, whatever the gateway and the JSON parser do,
  \<open>process_context_entry\<close> returns the insight record with all text features computed
  from the content. When the answer is not parseable as JSON, the raw answer is kept in
  the AI-analysis sub-record, under \<open>'raw_response'\<close>; a parseable answer is stored
  parsed; any other exception leaves its message under \<open>'error'\<close>. The gateway itself
  always answers with a text.
\<close>

theorem process_context_entry_keeps_insight:
  "keywords_field (process_context_entry to_list findall json_loads ai content source_type)
     = extract_keywords to_list content
   \<and> sentiment_score (process_context_entry to_list findall json_loads ai content source_type)
     = analyze_sentiment content
   \<and> priority_indicators (process_context_entry to_list findall json_loads ai content source_type)
     = detect_priority_indicators content
   \<and> dates_mentioned (process_context_entry to_list findall json_loads ai content source_type)
     = extract_dates_and_times findall content
   \<and> word_count (process_context_entry to_list findall json_loads ai content source_type)
     = length (split_whitespace content)
   \<and> has_deadline_mention
        (process_context_entry to_list findall json_loads ai content source_type)
     = any_in [''deadline'', ''due'', ''by''] (lower content)
   \<and> urgency_level (process_context_entry to_list findall json_loads ai content source_type)
     = calculate_urgency content
   \<and> (\<forall>ai_response msg.
        ai (context_prompt source_type content) 500 = Inr ai_response
        \<and> json_loads ai_response = Inl (Raised JSONDecodeError msg) \<longrightarrow>
        ai_analysis (process_context_entry to_list findall json_loads ai content source_type)
          = Raw_Response ai_response)
   \<and> (\<forall>ai_response ai_insights.
        ai (context_prompt source_type content) 500 = Inr ai_response
        \<and> json_loads ai_response = Inr ai_insights \<longrightarrow>
        ai_analysis (process_context_entry to_list findall json_loads ai content source_type)
          = Parsed ai_insights)
   \<and> (\<forall>ai_response cls msg.
        ai (context_prompt source_type content) 500 = Inr ai_response
        \<and> json_loads ai_response = Inl (Raised cls msg) \<and> cls \<noteq> JSONDecodeError \<longrightarrow>
        ai_analysis (process_context_entry to_list findall json_loads ai content source_type)
          = Error msg)
   \<and> (\<forall>e. ai (context_prompt source_type content) 500 = Inl e \<longrightarrow>
        ai_analysis (process_context_entry to_list findall json_loads ai content source_type)
          = Error (exception_str e))
   \<and> (\<exists>ai_response. gateway self w (context_prompt source_type content) 500 = Inr ai_response)"
  using analyze_with_ai_returns [of self "context_prompt source_type content" 500 w]
  by (simp add: process_context_entry_def gateway_def)

text \<open>
  An answer of LM Studio that is not JSON is kept as the raw response.
\<close>

theorem process_context_entry_keeps_insight_witness:
  "gateway client_without_keys (lm_studio_says ''I cannot answer that'')
      (context_prompt ''Email'' ''Lunch with Sam?'') 500 = Inr ''I cannot answer that''
   \<and> json_loads_example ''I cannot answer that''
       = Inl (Raised JSONDecodeError ''Expecting value'')
   \<and> ai_analysis (process_context_entry sorted_to_list no_dates json_loads_example
        (gateway client_without_keys (lm_studio_says ''I cannot answer that''))
        ''Lunch with Sam?'' ''Email'') = Raw_Response ''I cannot answer that''
   \<and> urgency_level (process_context_entry sorted_to_list no_dates json_loads_example
        (gateway client_without_keys (lm_studio_says ''I cannot answer that''))
        ''Lunch with Sam?'' ''Email'') = calculate_urgency ''Lunch with Sam?''"
proof -
  have h: "gateway client_without_keys (lm_studio_says ''I cannot answer that'')
      (context_prompt ''Email'' ''Lunch with Sam?'') 500 = Inr ''I cannot answer that''
   \<and> json_loads_example ''I cannot answer that''
       = Inl (Raised JSONDecodeError ''Expecting value'')"
    by code_simp
  note p = process_context_entry_keeps_insight
    [where ai = "gateway client_without_keys (lm_studio_says ''I cannot answer that'')"
       and json_loads = json_loads_example and to_list = sorted_to_list and findall = no_dates
       and content = "''Lunch with Sam?''" and source_type = "''Email''"
       and self = client_without_keys and w = offline_world]
  show ?thesis
    using h p by blast
qed

section \<open>Properties of the relevance ranker\<close>

lemma set_keywords_option:
  "set (case ks of None \<Rightarrow> [] | Some l \<Rightarrow> l) = (case ks of None \<Rightarrow> {} | Some l \<Rightarrow> set l)"
  by (cases ks) simp_all

lemma candidates_concat:
  "concat (map (\<lambda>c. if P c then [f c] else []) es) = map f (filter P es)"
  by (induction es) simp_all

lemma find_relevant_contexts_candidates:
  "find_relevant_contexts to_list task_content context_entries =
     take 5 (sort_key (\<lambda>x. - relevance_score x)
       (map (candidate to_list (set (extract_keywords to_list task_content)))
          (filter (\<lambda>c. 1 / 10 < relevance (set (extract_keywords to_list task_content)) c)
             context_entries)))"
  unfolding candidates_concat [symmetric]
  by (simp add: find_relevant_contexts_def relevance_def entry_keywords_def candidate_def
      Let_def set_keywords_option cong: if_cong)

lemma insort_key_map:
  "map g (insort_key (\<lambda>x. f (g x)) a xs) = insort_key f (g a) (map g xs)"
  by (induction xs) simp_all

lemma sort_key_map:
  "map g (sort_key (\<lambda>x. f (g x)) xs) = sort_key f (map g xs)"
  by (induction xs) (simp_all add: insort_key_map)

lemma relevance_le_one: "finite K \<Longrightarrow> relevance K c \<le> 1"
proof -
  assume fin: "finite K"
  have "card (K \<inter> entry_keywords c) \<le> card K"
    using fin by (simp add: card_mono)
  also have "\<dots> \<le> max (card K) 1" by simp
  finally have "real (card (K \<inter> entry_keywords c)) \<le> real (max (card K) 1)"
    by (simp only: of_nat_le_iff)
  then show ?thesis
    by (simp add: relevance_def divide_le_eq)
qed

lemma relevance_positive_overlap: "0 < relevance K c \<Longrightarrow> K \<inter> entry_keywords c \<noteq> {}"
  by (auto simp add: relevance_def)

lemma relevance_empty: "relevance {} c = 0"
  by (simp add: relevance_def)

lemma relevance_score_candidate: "relevance_score (candidate to_list K c) = relevance K c"
  by (simp add: candidate_def)

lemma context_field_candidate: "context_field (candidate to_list K c) = c"
  by (simp add: candidate_def)

lemma sort_candidates:
  "map context_field (sort_key (\<lambda>x. - relevance_score x) (map (candidate to_list K) es))
     = sort_key (\<lambda>c. - relevance K c) es"
proof -
  have "sort_key (\<lambda>x. - relevance_score x) (map (candidate to_list K) es)
      = map (candidate to_list K) (sort_key (\<lambda>c. - relevance K c) es)"
    using sort_key_map [of "candidate to_list K" "\<lambda>x. - relevance_score x" es]
    by (simp add: relevance_score_candidate)
  then show ?thesis
    by (simp add: context_field_candidate comp_def)
qed

lemma find_relevant_contexts_entries:
  "map context_field (find_relevant_contexts to_list task_content context_entries) =
     take 5 (sort_key (\<lambda>c. - relevance (set (extract_keywords to_list task_content)) c)
       (filter (\<lambda>c. 1 / 10 < relevance (set (extract_keywords to_list task_content)) c)
          context_entries))"
  unfolding find_relevant_contexts_candidates take_map [symmetric] sort_candidates
  by (rule refl)

lemma find_relevant_contexts_match:
  assumes "m \<in> set (find_relevant_contexts to_list task_content context_entries)"
  shows "m = candidate to_list (set (extract_keywords to_list task_content)) (context_field m)
    \<and> context_field m \<in> set context_entries
    \<and> 1 / 10 < relevance (set (extract_keywords to_list task_content)) (context_field m)"
proof -
  let ?K = "set (extract_keywords to_list task_content)"
  have "m \<in> set (sort_key (\<lambda>x. - relevance_score x)
       (map (candidate to_list ?K) (filter (\<lambda>c. 1 / 10 < relevance ?K c) context_entries)))"
    using assms unfolding find_relevant_contexts_candidates by (rule in_set_takeD)
  then obtain c where c: "c \<in> set context_entries" "1 / 10 < relevance ?K c"
      "m = candidate to_list ?K c"
    by auto
  then show ?thesis by (simp add: context_field_candidate)
qed

lemma find_relevant_contexts_sorted:
  "sorted_wrt (\<lambda>a b. relevance_score b \<le> relevance_score a)
     (find_relevant_contexts to_list task_content context_entries)"
proof -
  let ?C = "map (candidate to_list (set (extract_keywords to_list task_content)))
          (filter (\<lambda>c. 1 / 10 < relevance (set (extract_keywords to_list task_content)) c)
             context_entries)"
  have "sorted (map (\<lambda>x. - relevance_score x) (sort_key (\<lambda>x. - relevance_score x) ?C))"
    by (rule sorted_sort_key)
  then have "sorted_wrt (\<lambda>a b. relevance_score b \<le> relevance_score a)
      (sort_key (\<lambda>x. - relevance_score x) ?C)"
    by (simp add: sorted_map)
  then show ?thesis
    unfolding find_relevant_contexts_candidates by (rule sorted_wrt_take)
qed

lemma sorted_to_list_each_set: "lists_each_set sorted_to_list"
  by (simp add: lists_each_set_def sorted_to_list_def)

lemma to_list_take_all:
  assumes "lists_each_set to_list" and "finite s" and "card s \<le> n"
  shows "set (take n (to_list s)) = s"
proof -
  have s: "set (to_list s) = s" and d: "distinct (to_list s)"
    using assms(1,2) by (simp_all add: lists_each_set_def)
  have "length (to_list s) = card s"
    using distinct_card [OF d] s by simp
  then show ?thesis using assms(3) s by simp
qed

lemma to_list_singleton:
  assumes "lists_each_set to_list"
  shows "to_list {x} = [x]"
proof -
  have s: "set (to_list {x}) = {x}" and d: "distinct (to_list {x})"
    using assms by (simp_all add: lists_each_set_def)
  have "length (to_list {x}) = 1"
    using distinct_card [OF d] s by simp
  then obtain y where "to_list {x} = [y]"
    by (cases "to_list {x}") auto
  then show ?thesis using s by simp
qed

lemma project_meeting_words:
  "filter (\<lambda>word. length word > 2 \<and> word \<notin> stop_words)
     (split_whitespace
        (map (\<lambda>c. if \<not> is_word_char c \<and> \<not> is_space c then CHR '' '' else c)
           (lower ''The Project meeting!'')))
   = [''project'', ''meeting'']"
  by code_simp

lemma project_meeting_keywords:
  assumes "lists_each_set to_list"
  shows "set (extract_keywords to_list ''The Project meeting!'') = {''project'', ''meeting''}"
proof -
  have "set (take 10 (to_list (set [''project'', ''meeting'']))) = set [''project'', ''meeting'']"
    using assms by (rule to_list_take_all) simp_all
  then show ?thesis
    unfolding extract_keywords_def Let_def project_meeting_words by simp
qed

lemma relevance_lunch: "relevance {''project'', ''meeting''} lunch_entry = 1 / 2"
  by (simp add: relevance_def entry_keywords_def lunch_entry_def)

lemma relevance_invoice: "relevance {''project'', ''meeting''} invoice_entry = 0"
  by (simp add: relevance_def entry_keywords_def invoice_entry_def)

lemma overlap_lunch: "{''project'', ''meeting''} \<inter> entry_keywords lunch_entry = {''meeting''}"
  by (auto simp add: entry_keywords_def lunch_entry_def)

lemma project_meeting_example:
  assumes "lists_each_set to_list"
  shows "find_relevant_contexts to_list ''The Project meeting!'' [lunch_entry, invoice_entry]
    = [\<lparr>context_field = lunch_entry, relevance_score = 1 / 2,
         matching_keywords = [''meeting'']\<rparr>]"
  unfolding find_relevant_contexts_candidates project_meeting_keywords [OF assms]
  by (simp add: relevance_lunch relevance_invoice candidate_def overlap_lunch
      to_list_singleton [OF assms])

text \<open>
  C6: for every task text and list of context entries, \<open>find_relevant_contexts\<close>
  returns at most 5 matches, sorted by descending relevance score; each match is an
  entry of the list, its score is the size of the intersection of the task keyword set
  with the entry's keyword set over max(number of task keywords, 1), the score is above
  0.1, so in (0,1], and the entry shares a keyword with the task. The entries returned
  are the first 5 of the entries scoring above 0.1, sorted by descending score, ties in
  their original order. With no task keywords the result is empty. A task with the
  keywords project and meeting against an entry with the keywords meeting and lunch
  scores 0.5 and is included; an entry with no keyword in common is excluded.
\<close>

theorem find_relevant_contexts_correct:
  fixes to_list :: "string set \<Rightarrow> string list"
    and task_content :: string and context_entries :: "context_dict list"
  defines "K \<equiv> set (extract_keywords to_list task_content)"
  defines "R \<equiv> find_relevant_contexts to_list task_content context_entries"
  shows "length R \<le> 5
    \<and> sorted_wrt (\<lambda>a b. relevance_score b \<le> relevance_score a) R
    \<and> (\<forall>m \<in> set R.
          context_field m \<in> set context_entries
          \<and> relevance_score m = relevance K (context_field m)
          \<and> 1 / 10 < relevance_score m \<and> 0 < relevance_score m \<and> relevance_score m \<le> 1
          \<and> K \<inter> entry_keywords (context_field m) \<noteq> {})
    \<and> map context_field R
        = take 5 (sort_key (\<lambda>c. - relevance K c)
            (filter (\<lambda>c. 1 / 10 < relevance K c) context_entries))
    \<and> (K = {} \<longrightarrow> R = [])
    \<and> (lists_each_set to_list \<longrightarrow>
          set (extract_keywords to_list ''The Project meeting!'') = {''project'', ''meeting''}
          \<and> relevance {''project'', ''meeting''} lunch_entry = 1 / 2
          \<and> relevance {''project'', ''meeting''} invoice_entry = 0
          \<and> find_relevant_contexts to_list ''The Project meeting!'' [lunch_entry, invoice_entry]
              = [\<lparr>context_field = lunch_entry, relevance_score = 1 / 2,
                   matching_keywords = [''meeting'']\<rparr>])"
proof -
  have len: "length R \<le> 5"
    unfolding R_def find_relevant_contexts_candidates by simp
  have srt: "sorted_wrt (\<lambda>a b. relevance_score b \<le> relevance_score a) R"
    unfolding R_def by (rule find_relevant_contexts_sorted)
  have each: "\<forall>m \<in> set R.
          context_field m \<in> set context_entries
          \<and> relevance_score m = relevance K (context_field m)
          \<and> 1 / 10 < relevance_score m \<and> 0 < relevance_score m \<and> relevance_score m \<le> 1
          \<and> K \<inter> entry_keywords (context_field m) \<noteq> {}"
  proof
    fix m assume "m \<in> set R"
    then have m: "m = candidate to_list K (context_field m)"
        "context_field m \<in> set context_entries" "1 / 10 < relevance K (context_field m)"
      using find_relevant_contexts_match [of m to_list task_content context_entries]
      unfolding R_def K_def by simp_all
    have score: "relevance_score m = relevance K (context_field m)"
      using m(1) relevance_score_candidate [of to_list K "context_field m"] by simp
    have pos: "0 < relevance K (context_field m)" using m(3) by simp
    have "finite K" unfolding K_def by simp
    then have le: "relevance K (context_field m) \<le> 1" by (rule relevance_le_one)
    show "context_field m \<in> set context_entries
          \<and> relevance_score m = relevance K (context_field m)
          \<and> 1 / 10 < relevance_score m \<and> 0 < relevance_score m \<and> relevance_score m \<le> 1
          \<and> K \<inter> entry_keywords (context_field m) \<noteq> {}"
      using m(2,3) score pos le relevance_positive_overlap [OF pos] by simp
  qed
  have entries: "map context_field R
        = take 5 (sort_key (\<lambda>c. - relevance K c)
            (filter (\<lambda>c. 1 / 10 < relevance K c) context_entries))"
    unfolding R_def K_def by (rule find_relevant_contexts_entries)
  have empty: "K = {} \<longrightarrow> R = []"
  proof
    assume "K = {}"
    then have "filter (\<lambda>c. 1 / 10 < relevance K c) context_entries = []"
      by (simp add: relevance_empty)
    then have "map context_field R = []" using entries by simp
    then show "R = []" by simp
  qed
  have example: "lists_each_set to_list \<longrightarrow>
          set (extract_keywords to_list ''The Project meeting!'') = {''project'', ''meeting''}
          \<and> relevance {''project'', ''meeting''} lunch_entry = 1 / 2
          \<and> relevance {''project'', ''meeting''} invoice_entry = 0
          \<and> find_relevant_contexts to_list ''The Project meeting!'' [lunch_entry, invoice_entry]
              = [\<lparr>context_field = lunch_entry, relevance_score = 1 / 2,
                   matching_keywords = [''meeting'']\<rparr>]"
    using project_meeting_keywords project_meeting_example relevance_lunch relevance_invoice
    by blast
  show ?thesis
    using len srt each entries empty example by blast
qed

text \<open>
  With sets listed in sorted order: the lunch entry is the one match of "The Project
  meeting!", and "Is this for you?" has no keywords and no matches.
\<close>

theorem find_relevant_contexts_correct_witness:
  "lists_each_set sorted_to_list
   \<and> find_relevant_contexts sorted_to_list ''The Project meeting!'' [lunch_entry, invoice_entry]
       = [\<lparr>context_field = lunch_entry, relevance_score = 1 / 2,
            matching_keywords = [''meeting'']\<rparr>]
   \<and> set (extract_keywords sorted_to_list ''Is this for you?'') = {}
   \<and> find_relevant_contexts sorted_to_list ''Is this for you?'' [lunch_entry, invoice_entry]
       = []"
proof -
  have e: "set (extract_keywords sorted_to_list ''Is this for you?'') = {}"
    by code_simp
  note p = find_relevant_contexts_correct
    [of sorted_to_list "''Is this for you?''" "[lunch_entry, invoice_entry]"]
  show ?thesis
    using sorted_to_list_each_set e p by blast
qed

end
